theory Spec2Isabelle
  imports Main
begin

section \<open>The SoundCloud search API: the /search route of server.js\<close>

text \<open>
  The program is an Express application with one interesting route, \<^verbatim>\<open>GET /search\<close>
  (src/server.js, lines 67 to 186). The route validates the query parameter \<^verbatim>\<open>q\<close>,
  normalises \<^verbatim>\<open>limit\<close>, calls \<^verbatim>\<open>client.search\<close> of the scraping library, and then
  calls \<^verbatim>\<open>client.getSongInfo\<close> once for every search result, each call wrapped in its
  own try/catch, joining the calls with \<^verbatim>\<open>Promise.all\<close>.

  The embedding follows the handler statement by statement. What the handler does beyond
  computing a response is made explicit: the calls to the scraping library are returned
  as a trace, a thrown error is the left summand of a sum type, and the order in which the
  pending lookups settle is an argument chosen by the environment. Output on the console
  is not modelled.

  The scraping library is not part of the repository. It is taken as the specification
  describes it: \<^verbatim>\<open>search\<close> resolves to an array or throws, \<^verbatim>\<open>getSongInfo\<close> resolves to
  an object or throws, what is thrown is an \<^verbatim>\<open>Error\<close> with a message, and a duration
  is a number. Every other property of the library's objects is an arbitrary JavaScript
  value, since the handler only tests it for truthiness and passes it on.

  The repository holds a second file, src/unnamed/part_000, with an earlier and shorter
  version of the same route: it tests only \<^verbatim>\<open>!query\<close>, takes
  \<^verbatim>\<open>parseInt(req.query.limit) || 10\<close> as the limit without an upper bound, makes a lookup
  for every search result, and answers with \<^verbatim>\<open>query\<close>, \<^verbatim>\<open>total_results\<close>,
  \<^verbatim>\<open>developer\<close> and \<^verbatim>\<open>results\<close>, whose records have neither \<^verbatim>\<open>fetchError\<close> nor
  \<^verbatim>\<open>errorMessage\<close>. The response fields the specification names
  (\<^verbatim>\<open>requested_limit\<close>, \<^verbatim>\<open>processed_limit\<close>, \<^verbatim>\<open>actual_result_count\<close>,
  \<^verbatim>\<open>fetchError\<close>) exist in server.js alone; it is the route of server.js that is
  modelled and verified here.
\<close>

subsection \<open>JavaScript values\<close>

text \<open>
  Numbers are the integer-valued numbers and \<^verbatim>\<open>NaN\<close>; fractions and the infinities are
  outside the model. A number of the language is a double: \<open>Num n\<close> stands for a number
  when a double holds \<open>n\<close> exactly, as it holds every integer of magnitude up to 2^53
  and every power of two.
\<close>

datatype jsnum = Num int | NaN

text \<open>
  \<^verbatim>\<open>Math.floor(n / 1000)\<close>. The division is the doubles': the exact quotient is rounded
  to the nearest number with a significand of 53 bits, to the even one of two that are
  equally near, and \<^verbatim>\<open>Math.floor\<close> rounds the result towards minus infinity. The
  quotient of a non-zero integer by 1000 neither overflows nor is subnormal.

  \<open>bit_length n\<close> is the number of binary digits of a positive integer;
  \<open>round_half_even p q\<close> is the integer nearest to \<open>p / q\<close>; for \<open>a\<close> of 1 or more,
  \<open>quotient_exponent a\<close> is the exponent of the leading binary digit of \<open>a / 1000\<close>, found
  on \<open>a * 1024 / 1000\<close>, whose integer part is not zero.
\<close>

function bit_length :: "int \<Rightarrow> nat" where
  "bit_length n = (if n \<le> 0 then 0 else Suc (bit_length (n div 2)))"
  by pat_completeness auto
termination
  by (relation "measure nat") auto

declare bit_length.simps [simp del]

definition round_half_even :: "int \<Rightarrow> int \<Rightarrow> int" where
  "round_half_even p q =
     (let f = p div q; r = p mod q
      in if 2 * r < q then f
         else if q < 2 * r then f + 1
         else if even f then f else f + 1)"

definition quotient_exponent :: "int \<Rightarrow> int" where
  "quotient_exponent a = int (bit_length (a * 1024 div 1000)) - 11"

text \<open>
  With \<open>e\<close> the exponent of the last of the 53 binary digits kept, the rounded quotient
  is \<open>m * 2 ^ e\<close> for the integer \<open>m\<close> nearest to the exact quotient divided by \<open>2 ^ e\<close>.
\<close>

definition floor_div_1000 :: "int \<Rightarrow> int" where
  "floor_div_1000 n =
     (let a = \<bar>n\<bar>; e = quotient_exponent a - 52
      in if 0 \<le> e then sgn n * round_half_even a (1000 * 2 ^ nat e) * 2 ^ nat e
         else (sgn n * round_half_even (a * 2 ^ nat (- e)) 1000) div 2 ^ nat (- e))"

text \<open>
  A value read from an object of the scraping library. Strings are lists of code units
  below 256. An object is the list of its own properties.
\<close>

datatype jsval =
    Undefined
  | Null
  | Bool bool
  | Number jsnum
  | Str string
  | Obj "(string \<times> jsval) list"

text \<open>ToBoolean: what \<^verbatim>\<open>!v\<close>, \<^verbatim>\<open>v || w\<close> and \<^verbatim>\<open>v ? a : b\<close> test.\<close>

fun truthy_num :: "jsnum \<Rightarrow> bool" where
  "truthy_num (Num n) = (n \<noteq> 0)"
| "truthy_num NaN = False"

fun truthy :: "jsval \<Rightarrow> bool" where
  "truthy Undefined = False"
| "truthy Null = False"
| "truthy (Bool b) = b"
| "truthy (Number n) = truthy_num n"
| "truthy (Str s) = (s \<noteq> [])"
| "truthy (Obj kvs) = True"

text \<open>\<^verbatim>\<open>a || b\<close>: the left operand when it is truthy, the right operand otherwise.\<close>

definition js_or :: "jsval \<Rightarrow> jsval \<Rightarrow> jsval" where
  "js_or a b = (if truthy a then a else b)"

text \<open>
  \<^verbatim>\<open>v?.name\<close>: \<^verbatim>\<open>undefined\<close> when \<open>v\<close> is \<^verbatim>\<open>undefined\<close> or \<^verbatim>\<open>null\<close>; the property of an
  object, \<^verbatim>\<open>undefined\<close> when the object lacks it; a boolean, a number and a string have
  no property \<^verbatim>\<open>name\<close>.
\<close>

fun opt_name :: "jsval \<Rightarrow> jsval" where
  "opt_name (Obj kvs) = (case map_of kvs ''name'' of Some v \<Rightarrow> v | None \<Rightarrow> Undefined)"
| "opt_name v = Undefined"

subsection \<open>Query parameters\<close>

text \<open>
  What Express puts into \<^verbatim>\<open>req.query\<close> for one parameter name: nothing, a string, an
  array (\<^verbatim>\<open>?q=a&q=b\<close>) or an object (\<^verbatim>\<open>?q[k]=a\<close>).
\<close>

datatype qparam =
    Absent
  | QStr string
  | QArr "qparam list"
  | QObj "(string \<times> qparam) list"

fun truthy_q :: "qparam \<Rightarrow> bool" where
  "truthy_q Absent = False"
| "truthy_q (QStr s) = (s \<noteq> [])"
| "truthy_q (QArr xs) = True"
| "truthy_q (QObj kvs) = True"

fun typeof :: "qparam \<Rightarrow> string" where
  "typeof Absent = ''undefined''"
| "typeof (QStr s) = ''string''"
| "typeof (QArr xs) = ''object''"
| "typeof (QObj kvs) = ''object''"

text \<open>
  ToString, which \<^verbatim>\<open>parseInt\<close> applies to its argument first. An array is the join of
  its elements with commas, where an \<^verbatim>\<open>undefined\<close> element contributes the empty string.
\<close>

fun join_comma :: "string list \<Rightarrow> string" where
  "join_comma [] = []"
| "join_comma [s] = s"
| "join_comma (s # t # ss) = s @ '','' @ join_comma (t # ss)"

fun ToString :: "qparam \<Rightarrow> string" where
  "ToString Absent = ''undefined''"
| "ToString (QStr s) = s"
| "ToString (QArr xs) = join_comma (map (\<lambda>x. if x = Absent then [] else ToString x) xs)"
| "ToString (QObj kvs) = ''[object Object]''"

text \<open>The string of a parameter whose \<open>typeof\<close> is \<^verbatim>\<open>'string'\<close>.\<close>

fun the_string :: "qparam \<Rightarrow> string" where
  "the_string (QStr s) = s"
| "the_string v = []"

subsection \<open>String functions of the language\<close>

text \<open>White space and line terminators among the code units below 256.\<close>

definition isWhiteSpace :: "char \<Rightarrow> bool" where
  "isWhiteSpace c = (of_char c \<in> {9, 10, 11, 12, 13, 32, 160 :: nat})"

definition trimStart :: "string \<Rightarrow> string" where
  "trimStart s = dropWhile isWhiteSpace s"

definition trim :: "string \<Rightarrow> string" where
  "trim s = rev (dropWhile isWhiteSpace (rev (dropWhile isWhiteSpace s)))"

definition isDigit :: "char \<Rightarrow> bool" where
  "isDigit c = (48 \<le> (of_char c :: nat) \<and> (of_char c :: nat) \<le> 57)"

definition digit_value :: "char \<Rightarrow> int" where
  "digit_value c = of_char c - 48"

text \<open>The value of a string of decimal digits, most significant digit first.\<close>

definition digits_value :: "string \<Rightarrow> int" where
  "digits_value Z = foldl (\<lambda>acc c. 10 * acc + digit_value c) 0 Z"

text \<open>
  \<^verbatim>\<open>parseInt(string, 10)\<close> on the string its argument converts to: leading white space
  is dropped, one sign is read, then the longest prefix of decimal digits. No digit there
  gives \<^verbatim>\<open>NaN\<close>; what follows the digits is ignored. The language rounds an integer
  beyond 2^53 to the nearest number it can represent; here it is kept as it is, which the
  handler cannot tell apart, since it compares the limit with 0 and with 50 and keeps it
  only when it is at most 50.
\<close>

definition parseInt :: "string \<Rightarrow> jsnum" where
  "parseInt inputString =
     (let S = trimStart inputString;
          sign = (if S \<noteq> [] \<and> hd S = CHR ''-'' then - 1 else 1);
          S' = (if S \<noteq> [] \<and> (hd S = CHR ''+'' \<or> hd S = CHR ''-'') then tl S else S);
          Z = takeWhile isDigit S'
      in if Z = [] then NaN else Num (sign * digits_value Z))"

definition isNaN :: "jsnum \<Rightarrow> bool" where
  "isNaN n = (n = NaN)"

text \<open>Comparison of a number with an integer constant: false when the number is NaN.\<close>

fun num_le :: "jsnum \<Rightarrow> int \<Rightarrow> bool" where
  "num_le (Num n) k = (n \<le> k)"
| "num_le NaN k = False"

fun num_gt :: "jsnum \<Rightarrow> int \<Rightarrow> bool" where
  "num_gt (Num n) k = (n > k)"
| "num_gt NaN k = False"

subsection \<open>Configuration\<close>

definition DEFAULT_SEARCH_LIMIT :: int where
  "DEFAULT_SEARCH_LIMIT = 10"

definition MAX_SEARCH_LIMIT :: int where
  "MAX_SEARCH_LIMIT = 50"

subsection \<open>The scraping library\<close>

text \<open>
  An object of the scraping library: an element of the array \<^verbatim>\<open>client.search\<close> resolves
  to (the handler's \<^verbatim>\<open>track\<close>) and the object \<^verbatim>\<open>client.getSongInfo\<close> resolves to (the
  handler's \<^verbatim>\<open>songInfo\<close>). These are the properties the handler reads. A property that
  is absent is \<open>Undefined\<close>. The duration is the one property the handler computes with;
  it is a number of milliseconds, or \<open>None\<close> when it is absent or \<^verbatim>\<open>null\<close>.
\<close>

record song =
  song_title :: jsval
  song_url :: jsval
  song_author :: jsval
  song_thumbnail :: jsval
  song_duration :: "jsnum option"
  song_genre :: jsval
  song_publishedAt :: jsval

text \<open>A thrown error: an \<^verbatim>\<open>Error\<close> object, of which the handler reads \<^verbatim>\<open>message\<close>.\<close>

datatype js_error = Error string

fun error_message :: "js_error \<Rightarrow> string" where
  "error_message (Error m) = m"

text \<open>
  The client. \<open>search\<close> gets the query, the kind and the limit, and resolves to an array
  or rejects. An element of the array is \<open>None\<close> when it is \<^verbatim>\<open>null\<close> or
  \<^verbatim>\<open>undefined\<close>, which the handler tests for. \<open>getSongInfo\<close> gets the url; its first
  argument is the position of the search result the call is made for, so that two lookups
  of one url may end differently.
\<close>

record client =
  search :: "qparam \<Rightarrow> string \<Rightarrow> jsnum \<Rightarrow> js_error + song option list"
  getSongInfo :: "nat \<Rightarrow> jsval \<Rightarrow> js_error + song"

datatype call =
    SearchCall qparam string jsnum
  | GetSongInfoCall jsval

subsection \<open>The response\<close>

record enriched_track =
  title :: jsval
  url :: jsval
  author :: jsval
  thumbnail :: jsval
  duration_seconds :: jsnum
  genre :: jsval
  publishedAt :: jsval
  fetchError :: bool
  errorMessage :: "string option"

record search_body =
  query :: qparam
  requested_limit :: qparam
  processed_limit :: jsnum
  actual_result_count :: nat
  developer :: string
  results :: "enriched_track list"
  message :: "string option"

datatype body =
    BadRequestBody string
  | SearchBody search_body
  | InternalErrorBody string string string

record response =
  status :: nat
  body :: body

record request =
  query_q :: qparam
  query_limit :: qparam

subsection \<open>The handler\<close>

text \<open>\<^verbatim>\<open>d ? Math.floor(d / 1000) : 0\<close> for a duration \<open>d\<close>.\<close>

fun floor_seconds :: "jsnum option \<Rightarrow> jsnum" where
  "floor_seconds None = Num 0"
| "floor_seconds (Some NaN) = Num 0"
| "floor_seconds (Some (Num n)) = (if n \<noteq> 0 then Num (floor_div_1000 n) else Num 0)"

text \<open>Lines 78 to 84: the limit the handler works with.\<close>

definition normalize_limit :: "qparam \<Rightarrow> jsnum" where
  "normalize_limit rawLimit =
     (let limit = parseInt (ToString rawLimit)
      in if isNaN limit \<or> num_le limit 0 then Num DEFAULT_SEARCH_LIMIT
         else if num_gt limit MAX_SEARCH_LIMIT then Num MAX_SEARCH_LIMIT
         else limit)"

text \<open>Lines 118 to 128: the record for a search result without a url.\<close>

definition missing_url_track :: "song option \<Rightarrow> enriched_track" where
  "missing_url_track track =
     \<lparr> title = js_or (case track of None \<Rightarrow> Undefined | Some t \<Rightarrow> song_title t)
                 (Str ''Unknown Title (URL missing)''),
       url = Null,
       author = js_or (case track of None \<Rightarrow> Undefined | Some t \<Rightarrow> opt_name (song_author t))
                 (Str ''Unknown Artist''),
       thumbnail = js_or (case track of None \<Rightarrow> Undefined | Some t \<Rightarrow> song_thumbnail t) Null,
       duration_seconds = floor_seconds (case track of None \<Rightarrow> None | Some t \<Rightarrow> song_duration t),
       genre = Str ''Unknown'',
       publishedAt = Str ''Unknown'',
       fetchError = True,
       errorMessage = Some ''Missing track URL in search result'' \<rparr>"

text \<open>Lines 134 to 143: the record built from the detail payload.\<close>

definition detailed_track :: "song \<Rightarrow> song \<Rightarrow> enriched_track" where
  "detailed_track track songInfo =
     \<lparr> title = js_or (song_title songInfo) (Str ''Unknown Title''),
       url = js_or (song_url songInfo) (song_url track),
       author = js_or (opt_name (song_author songInfo)) (Str ''Unknown Artist''),
       thumbnail = js_or (song_thumbnail songInfo) Null,
       duration_seconds = floor_seconds (song_duration songInfo),
       genre = js_or (song_genre songInfo) (Str ''Unknown''),
       publishedAt = js_or (song_publishedAt songInfo) (Str ''Unknown''),
       fetchError = False,
       errorMessage = None \<rparr>"

text \<open>Lines 148 to 158: the record built in the catch block.\<close>

definition fetch_failed_track :: "song \<Rightarrow> js_error \<Rightarrow> enriched_track" where
  "fetch_failed_track track err =
     \<lparr> title = js_or (song_title track) (Str ''Unknown Title (fetch failed)''),
       url = js_or (song_url track) Null,
       author = js_or (opt_name (song_author track)) (Str ''Unknown Artist''),
       thumbnail = js_or (song_thumbnail track) Null,
       duration_seconds = floor_seconds (song_duration track),
       genre = Str ''Unknown'',
       publishedAt = Str ''Unknown'',
       fetchError = True,
       errorMessage = Some (error_message err) \<rparr>"

text \<open>
  Lines 112 to 160: the function mapped over the search results, for the result at
  position \<open>i\<close>. It returns the record its promise fulfils with and the calls it made. The
  promise cannot reject: the whole body is inside the try block, and the catch block only
  reads properties of \<open>track\<close>, which is an object there, and of the error.
\<close>

definition detailedResultsPromise :: "client \<Rightarrow> nat \<Rightarrow> song option \<Rightarrow> enriched_track \<times> call list" where
  "detailedResultsPromise cl i track =
     (case track of
        None \<Rightarrow> (missing_url_track track, [])
      | Some t \<Rightarrow>
          if \<not> truthy (song_url t) then (missing_url_track track, [])
          else (case getSongInfo cl i (song_url t) of
                  Inr songInfo \<Rightarrow> (detailed_track t songInfo, [GetSongInfoCall (song_url t)])
                | Inl err \<Rightarrow> (fetch_failed_track t err, [GetSongInfoCall (song_url t)])))"

definition detailedResultsPromises :: "client \<Rightarrow> song option list \<Rightarrow> (enriched_track \<times> call list) list" where
  "detailedResultsPromises cl searchResults =
     map (\<lambda>(i, track). detailedResultsPromise cl i track) (enumerate 0 searchResults)"

text \<open>
  \<^verbatim>\<open>Promise.all\<close> over promises that all fulfil. It keeps an array with one slot for
  every promise; when the promise at position \<open>i\<close> settles, its value is stored in slot
  \<open>i\<close>; once every slot is filled the array is the result. \<open>settled\<close> lists the positions
  in the order in which the promises settle. While a slot is empty the joined promise is
  pending, which is the result \<open>None\<close>.
\<close>

definition Promise_all :: "nat list \<Rightarrow> 'a list \<Rightarrow> 'a list option" where
  "Promise_all settled promises =
     those (foldl (\<lambda>values i. if i < length promises then values[i := Some (promises ! i)] else values)
              (replicate (length promises) None) settled)"

text \<open>Every promise settles, and settles once.\<close>

definition settles_all :: "nat \<Rightarrow> nat list \<Rightarrow> bool" where
  "settles_all n settled = (distinct settled \<and> set settled = {0..<n})"

text \<open>
  Lines 67 to 186. The result is the response, \<open>None\<close> when the handler never responds,
  and the calls made to the scraping library, in the order in which they were made.
\<close>

definition search_route :: "client \<Rightarrow> nat list \<Rightarrow> request \<Rightarrow> response option \<times> call list" where
  "search_route cl settled req =
     (let query = query_q req; rawLimit = query_limit req
      in if \<not> truthy_q query \<or> typeof query \<noteq> ''string'' \<or> trim (the_string query) = []
         then (Some \<lparr> status = 400, body = BadRequestBody
                 ''Bad Request: Missing or invalid search query. Please provide a non-empty \"q\" parameter.'' \<rparr>, [])
         else
           let limit = normalize_limit rawLimit
           in (case search cl query ''track'' limit of
                 Inl error \<Rightarrow>
                   (Some \<lparr> status = 500, body = InternalErrorBody ''Internal Server Error''
                       ''An unexpected error occurred while processing the SoundCloud search.''
                       ''Ehsan Fazeli'' \<rparr>,
                    [SearchCall query ''track'' limit])
               | Inr searchResults \<Rightarrow>
                   if searchResults = []
                   then (Some \<lparr> status = 200, body = SearchBody
                           \<lparr> query = query, requested_limit = rawLimit, processed_limit = limit,
                             actual_result_count = 0, developer = ''Ehsan Fazeli'', results = [],
                             message = Some ''No tracks found for this query.'' \<rparr> \<rparr>,
                         [SearchCall query ''track'' limit])
                   else
                     let promises = detailedResultsPromises cl searchResults;
                         calls = SearchCall query ''track'' limit # concat (map snd promises)
                     in (case Promise_all settled (map fst promises) of
                           None \<Rightarrow> (None, calls)
                         | Some detailedResults \<Rightarrow>
                             (Some \<lparr> status = 200, body = SearchBody
                                \<lparr> query = query, requested_limit = rawLimit, processed_limit = limit,
                                  actual_result_count = length detailedResults,
                                  developer = ''Ehsan Fazeli'', results = detailedResults,
                                  message = None \<rparr> \<rparr>,
                              calls))))"

subsection \<open>Example inputs\<close>

definition ex_song_a :: song where
  "ex_song_a = \<lparr> song_title = Str ''Night Drive'', song_url = Str ''https://soundcloud.com/a/night-drive'',
     song_author = Obj [(''name'', Str ''Ada'')], song_thumbnail = Str ''https://i1.sndcdn.com/a.jpg'',
     song_duration = Some (Num 185999), song_genre = Str ''Lofi'', song_publishedAt = Obj [] \<rparr>"

definition ex_song_b :: song where
  "ex_song_b = \<lparr> song_title = Undefined, song_url = Str ''https://soundcloud.com/b/untitled'',
     song_author = Undefined, song_thumbnail = Undefined,
     song_duration = None, song_genre = Undefined, song_publishedAt = Undefined \<rparr>"

definition ex_song_no_url :: song where
  "ex_song_no_url = \<lparr> song_title = Str ''Orphan'', song_url = Undefined,
     song_author = Obj [(''name'', Str ''Cy'')], song_thumbnail = Undefined,
     song_duration = Some (Num 2500), song_genre = Undefined, song_publishedAt = Undefined \<rparr>"

definition ex_client :: client where
  "ex_client = \<lparr> search = (\<lambda>q kind lim. Inr [Some ex_song_a, Some ex_song_b, Some ex_song_no_url]),
     getSongInfo = (\<lambda>i u. if i = 1 then Inl (Error ''boom'') else Inr ex_song_a) \<rparr>"

definition ex_request :: request where
  "ex_request = \<lparr> query_q = QStr ''lofi'', query_limit = QStr ''3'' \<rparr>"

definition ex_client_empty :: client where
  "ex_client_empty = \<lparr> search = (\<lambda>q kind lim. Inr []),
     getSongInfo = (\<lambda>i u. Inr ex_song_a) \<rparr>"

definition ex_client_down :: client where
  "ex_client_down = \<lparr> search = (\<lambda>q kind lim. Inl (Error ''getaddrinfo ENOTFOUND soundcloud.com'')),
     getSongInfo = (\<lambda>i u. Inr ex_song_a) \<rparr>"

definition cx_song_negative :: song where
  "cx_song_negative = \<lparr> song_title = Str ''Glitch'', song_url = Str ''https://soundcloud.com/c/glitch'',
     song_author = Undefined, song_thumbnail = Undefined,
     song_duration = Some (Num (- 1500)), song_genre = Undefined, song_publishedAt = Undefined \<rparr>"

definition cx_song_huge :: song where
  "cx_song_huge = \<lparr> song_title = Str ''Drone'', song_url = Str ''https://soundcloud.com/c/drone'',
     song_author = Undefined, song_thumbnail = Undefined,
     song_duration = Some (Num 9223372036854775808), song_genre = Undefined,
     song_publishedAt = Undefined \<rparr>"

definition cx_client_huge :: client where
  "cx_client_huge = \<lparr> search = (\<lambda>q kind lim. Inr [Some ex_song_a]),
     getSongInfo = (\<lambda>i u. Inr cx_song_huge) \<rparr>"

definition cx_client_negative :: client where
  "cx_client_negative = \<lparr> search = (\<lambda>q kind lim. Inr [Some ex_song_a]),
     getSongInfo = (\<lambda>i u. Inr cx_song_negative) \<rparr>"

definition ex_info_sparse :: song where
  "ex_info_sparse = \<lparr> song_title = Undefined, song_url = Undefined,
     song_author = Obj [(''id'', Number (Num 7))], song_thumbnail = Null,
     song_duration = Some (Num 61999), song_genre = Str '''', song_publishedAt = Undefined \<rparr>"

definition ex_client_sparse :: client where
  "ex_client_sparse = \<lparr> search = (\<lambda>q kind lim. Inr [Some ex_song_a]),
     getSongInfo = (\<lambda>i u. Inr ex_info_sparse) \<rparr>"

definition cx_client_failing :: client where
  "cx_client_failing = \<lparr> search = (\<lambda>q kind lim. Inr [Some ex_song_no_url, Some ex_song_b]),
     getSongInfo = (\<lambda>i u. if i = 1 then Inl (Error ''429 Too Many Requests'') else Inr ex_song_a) \<rparr>"

definition ex_request_over :: request where
  "ex_request_over = \<lparr> query_q = QStr ''lofi'', query_limit = QStr ''75'' \<rparr>"

definition ex_request_prefix :: request where
  "ex_request_prefix = \<lparr> query_q = QStr ''lofi'', query_limit = QStr ''25abc'' \<rparr>"

section \<open>Properties of the building blocks\<close>

subsection \<open>Joining the lookups\<close>

text \<open>
  Once every lookup has settled, in whatever order, the joined promise holds the values
  in the order of the promises. While one of them has not settled it is pending.
\<close>

lemma those_map_Some: "those (map Some xs) = Some xs"
  by (induction xs) simp_all

lemma those_None: "None \<in> set xs \<Longrightarrow> those xs = None"
  by (induction xs) (auto split: option.split)

lemma settle_slots:
  "length slots = length ps \<Longrightarrow>
   foldl (\<lambda>values i. if i < length ps then values[i := Some (ps ! i)] else values) slots settled =
   map (\<lambda>j. if j \<in> set settled then Some (ps ! j) else slots ! j) [0..<length ps]"
proof (induction settled arbitrary: slots)
  case Nil
  have "map ((!) slots) [0..<length slots] = slots" by (rule map_nth)
  with Nil show ?case by simp
next
  case (Cons i settled)
  let ?slots' = "if i < length ps then slots[i := Some (ps ! i)] else slots"
  have len: "length ?slots' = length ps" using Cons.prems by simp
  have step: "\<And>j. j < length ps \<Longrightarrow>
          ?slots' ! j = (if j = i then Some (ps ! j) else slots ! j)"
    using Cons.prems by (simp add: nth_list_update)
  have "map (\<lambda>j. if j \<in> set settled then Some (ps ! j) else ?slots' ! j) [0..<length ps] =
        map (\<lambda>j. if j \<in> set (i # settled) then Some (ps ! j) else slots ! j) [0..<length ps]"
  proof (rule map_cong [OF refl])
    fix j assume "j \<in> set [0..<length ps]"
    then show "(if j \<in> set settled then Some (ps ! j) else ?slots' ! j) =
               (if j \<in> set (i # settled) then Some (ps ! j) else slots ! j)"
      using step [of j] by auto
  qed
  with Cons.IH [OF len] show ?case by simp
qed

lemma Promise_all_settled:
  assumes "settles_all (length ps) settled"
  shows "Promise_all settled ps = Some ps"
proof -
  have all: "\<And>j. j < length ps \<Longrightarrow> j \<in> set settled"
    using assms by (simp add: settles_all_def)
  have "foldl (\<lambda>values i. if i < length ps then values[i := Some (ps ! i)] else values)
          (replicate (length ps) None) settled =
        map (\<lambda>j. if j \<in> set settled then Some (ps ! j) else replicate (length ps) None ! j) [0..<length ps]"
    by (rule settle_slots) simp
  also have "\<dots> = map (\<lambda>j. Some (ps ! j)) [0..<length ps]"
    by (rule map_cong [OF refl]) (simp add: all)
  also have "\<dots> = map Some (map ((!) ps) [0..<length ps])"
    by simp
  also have "\<dots> = map Some ps"
    by (simp only: map_nth)
  finally show ?thesis
    by (simp add: Promise_all_def those_map_Some)
qed

lemma Promise_all_pending:
  assumes "i < length ps" "i \<notin> set settled"
  shows "Promise_all settled ps = None"
proof -
  let ?slots = "foldl (\<lambda>values i. if i < length ps then values[i := Some (ps ! i)] else values)
          (replicate (length ps) None) settled"
  have slots: "?slots =
        map (\<lambda>j. if j \<in> set settled then Some (ps ! j) else replicate (length ps) None ! j) [0..<length ps]"
    by (rule settle_slots) simp
  have "?slots ! i = None"
    using assms by (simp add: slots)
  moreover have "i < length ?slots"
    using assms by (simp add: slots)
  ultimately have "None \<in> set ?slots"
    using nth_mem [of i ?slots] by simp
  then show ?thesis
    unfolding Promise_all_def by (rule those_None)
qed

subsection \<open>The mapped function\<close>

lemma length_detailedResultsPromises:
  "length (detailedResultsPromises cl xs) = length xs"
  by (simp add: detailedResultsPromises_def)

lemma nth_detailedResultsPromises:
  "i < length xs \<Longrightarrow> detailedResultsPromises cl xs ! i = detailedResultsPromise cl i (xs ! i)"
  by (simp add: detailedResultsPromises_def nth_enumerate_eq)

lemma snd_detailedResultsPromise:
  "snd (detailedResultsPromise cl i track) =
     (case track of
        None \<Rightarrow> []
      | Some t \<Rightarrow> if truthy (song_url t) then [GetSongInfoCall (song_url t)] else [])"
  by (simp add: detailedResultsPromise_def split: option.split sum.split)

lemma calls_of_enumerate:
  "concat (map snd (map (\<lambda>(i, track). detailedResultsPromise cl i track) (enumerate n candidates))) =
     [GetSongInfoCall (song_url t). Some t \<leftarrow> candidates, truthy (song_url t)]"
proof (induction candidates arbitrary: n)
  case Nil
  show ?case by simp
next
  case (Cons c cs)
  show ?case
  proof (cases c)
    case None
    with Cons.IH [of "Suc n"] show ?thesis
      by (simp add: snd_detailedResultsPromise)
  next
    case (Some t)
    with Cons.IH [of "Suc n"] show ?thesis
      by (simp add: snd_detailedResultsPromise)
  qed
qed

lemma calls_of_detailedResultsPromises:
  "concat (map snd (detailedResultsPromises cl candidates)) =
     [GetSongInfoCall (song_url t). Some t \<leftarrow> candidates, truthy (song_url t)]"
  unfolding detailedResultsPromises_def by (rule calls_of_enumerate)

subsection \<open>The rounding of durations\<close>

text \<open>
  For a duration of magnitude below 2^53 the division's rounding error is too small to
  carry the quotient across an integer, so \<^verbatim>\<open>Math.floor(n / 1000)\<close> is \<open>n div 1000\<close>,
  the exact quotient rounded towards minus infinity. Beyond that it need not be: at 2^63
  the two differ by one. A duration that is not negative never gives a negative result.
\<close>

lemma bit_length_le: "n < 2 ^ w \<Longrightarrow> bit_length n \<le> w"
proof (induction w arbitrary: n)
  case 0
  then show ?case by (simp add: bit_length.simps)
next
  case (Suc w)
  show ?case
  proof (cases "n \<le> 0")
    case True
    then show ?thesis by (simp add: bit_length.simps)
  next
    case False
    from Suc.prems have "n div 2 < 2 ^ w" by simp
    then have "bit_length (n div 2) \<le> w" by (rule Suc.IH)
    with False show ?thesis by (subst bit_length.simps) simp
  qed
qed

lemma quotient_exponent_safe:
  assumes "a < 2 ^ 53"
  shows "quotient_exponent a \<le> 43"
proof -
  from assms have "a * 1024 div 1000 < 2 ^ 54" by simp
  then have "bit_length (a * 1024 div 1000) \<le> 54" by (rule bit_length_le)
  then show ?thesis by (simp add: quotient_exponent_def)
qed

lemma round_half_even_near:
  assumes "0 < q"
  shows "2 * \<bar>q * round_half_even p q - p\<bar> \<le> q"
proof -
  define f where "f = p div q"
  define r where "r = p mod q"
  have p: "p = q * f + r" by (simp add: f_def r_def)
  have r: "0 \<le> r" "r < q" using assms by (simp_all add: r_def)
  have "round_half_even p q = f \<and> 2 * r \<le> q \<or> round_half_even p q = f + 1 \<and> q \<le> 2 * r"
    unfolding round_half_even_def Let_def f_def [symmetric] r_def [symmetric] by auto
  then show ?thesis
  proof
    assume "round_half_even p q = f \<and> 2 * r \<le> q"
    with p r show ?thesis by (simp add: algebra_simps)
  next
    assume "round_half_even p q = f + 1 \<and> q \<le> 2 * r"
    with p r show ?thesis by (simp add: algebra_simps)
  qed
qed

lemma round_half_even_exact:
  assumes "0 < q" "p mod q = 0"
  shows "round_half_even p q = p div q"
  using assms by (simp add: round_half_even_def)

lemma round_half_even_nonneg:
  assumes "0 < q" "0 \<le> p"
  shows "0 \<le> round_half_even p q"
proof -
  have "0 \<le> p div q" using assms by (simp add: pos_imp_zdiv_nonneg_iff)
  then show ?thesis
    by (simp add: round_half_even_def Let_def)
qed

lemma floor_of_rounded:
  fixes a m P :: int
  assumes P: "500 < P" and a: "0 \<le> a"
    and near: "2 * \<bar>1000 * m - a * P\<bar> \<le> 1000"
    and exact: "a mod 1000 = 0 \<Longrightarrow> m = (a div 1000) * P"
  shows "m div P = a div 1000" and "(- m) div P = (- a) div 1000"
proof -
  define f where "f = a div 1000"
  define r where "r = a mod 1000"
  define X where "X = f * P"
  define Y where "Y = r * P"
  have af: "a = 1000 * f + r" by (simp add: f_def r_def)
  have r: "0 \<le> r" "r \<le> 999" by (simp_all add: r_def)
  have aP: "a * P = 1000 * X + Y" by (simp add: af X_def Y_def algebra_simps)
  have both: "m div P = f \<and> (- m) div P = (- a) div 1000"
  proof (cases "r = 0")
    case True
    then have m: "m = f * P" using exact by (simp add: r_def f_def)
    from P have pos: "(0::int) < P" by simp
    have zero: "(0::int) \<le> 0" by simp
    have "m = P * f + 0" by (simp add: m)
    from this zero pos have "m div P = f" by (rule int_div_pos_eq)
    moreover have "- m = P * (- f) + 0" by (simp add: m)
    from this zero pos have "(- m) div P = - f" by (rule int_div_pos_eq)
    moreover have "- a = 1000 * (- f) + 0" using True af by simp
    from this zero have "(- a) div 1000 = - f" by (rule int_div_pos_eq) simp
    ultimately show ?thesis by simp
  next
    case False
    with r have r1: "1 \<le> r" by simp
    have "1 * P \<le> r * P" using r1 P by (intro mult_right_mono) simp_all
    then have Y1: "P \<le> Y" by (simp add: Y_def)
    have "r * P \<le> 999 * P" using r P by (intro mult_right_mono) simp_all
    then have Y2: "Y \<le> 999 * P" by (simp add: Y_def)
    from near aP have lo: "1000 * X + Y - 500 \<le> 1000 * m" and hi: "1000 * m \<le> 1000 * X + Y + 500"
      by simp_all
    from lo Y1 P have m_lo: "X < m" by simp
    from hi Y2 P have m_hi: "m < X + P" by simp
    have "m = P * f + (m - X)" by (simp add: X_def)
    moreover have "0 \<le> m - X" "m - X < P" using m_lo m_hi by simp_all
    ultimately have pos: "m div P = f" by (rule int_div_pos_eq)
    have "- m = P * (- f - 1) + (X + P - m)" by (simp add: X_def algebra_simps)
    moreover have "0 \<le> X + P - m" "X + P - m < P" using m_lo m_hi by simp_all
    ultimately have neg: "(- m) div P = - f - 1" by (rule int_div_pos_eq)
    have "- a = 1000 * (- f - 1) + (1000 - r)" using af by simp
    moreover have "0 \<le> 1000 - r" "1000 - r < 1000" using r r1 by simp_all
    ultimately have "(- a) div 1000 = - f - 1" by (rule int_div_pos_eq)
    with pos neg show ?thesis by simp
  qed
  from both show "m div P = a div 1000" by (simp add: f_def)
  from both show "(- m) div P = (- a) div 1000" by simp
qed

lemma floor_div_1000_exact:
  assumes "\<bar>n\<bar> < 2 ^ 53"
  shows "floor_div_1000 n = n div 1000"
proof -
  define a where "a = \<bar>n\<bar>"
  define e where "e = quotient_exponent a - 52"
  define P :: int where "P = 2 ^ nat (- e)"
  define m where "m = round_half_even (a * P) 1000"
  have a: "0 \<le> a" "a < 2 ^ 53" using assms by (simp_all add: a_def)
  have e: "e \<le> - 9" using quotient_exponent_safe [OF a(2)] by (simp add: e_def)
  then have "(2::int) ^ 9 \<le> 2 ^ nat (- e)"
    by (intro power_increasing) simp_all
  then have P: "500 < P" by (simp add: P_def)
  have near: "2 * \<bar>1000 * m - a * P\<bar> \<le> 1000"
    using round_half_even_near [of 1000 "a * P"] by (simp add: m_def)
  have exact: "m = (a div 1000) * P" if "a mod 1000 = 0"
  proof -
    from that have "1000 dvd a" by (simp add: dvd_eq_mod_eq_0)
    then obtain c where c: "a = 1000 * c" by (rule dvdE)
    then have "(a * P) mod 1000 = 0" by simp
    then have "m = a * P div 1000" unfolding m_def by (intro round_half_even_exact) simp_all
    with c show ?thesis by simp
  qed
  note fl = floor_of_rounded [OF P a(1) near exact]
  have "floor_div_1000 n =
      (if 0 \<le> e then sgn n * round_half_even a (1000 * 2 ^ nat e) * 2 ^ nat e
       else (sgn n * round_half_even (a * 2 ^ nat (- e)) 1000) div 2 ^ nat (- e))"
    unfolding floor_div_1000_def Let_def a_def e_def ..
  also have "\<dots> = (sgn n * m) div P"
    using e unfolding m_def P_def by simp
  finally have unfold: "floor_div_1000 n = (sgn n * m) div P" .
  show ?thesis
  proof (cases "n = 0")
    case True
    with unfold show ?thesis by simp
  next
    case False
    show ?thesis
    proof (cases "0 < n")
      case True
      then have "a = n" by (simp add: a_def)
      with True fl(1) show ?thesis by (simp add: unfold)
    next
      case neg: False
      with False have "n < 0" by simp
      then have "- a = n" "sgn n = - 1" by (simp_all add: a_def)
      with fl(2) show ?thesis by (simp add: unfold)
    qed
  qed
qed

lemma floor_div_1000_nonneg:
  assumes "0 \<le> n"
  shows "0 \<le> floor_div_1000 n"
proof -
  have "0 \<le> sgn n" using assms by (simp add: sgn_if)
  moreover have "0 \<le> round_half_even \<bar>n\<bar> (1000 * 2 ^ k)" for k :: nat
    by (rule round_half_even_nonneg) simp_all
  moreover have "0 \<le> round_half_even (\<bar>n\<bar> * 2 ^ k) 1000" for k :: nat
    by (rule round_half_even_nonneg) simp_all
  ultimately show ?thesis
    by (simp add: floor_div_1000_def Let_def pos_imp_zdiv_nonneg_iff)
qed

lemma floor_div_1000_huge: "floor_div_1000 9223372036854775808 = 9223372036854776"
  by code_simp

lemma floor_div_1000_minus_1500: "floor_div_1000 (- 1500) = - 2"
  by code_simp

lemma floor_seconds_exact:
  assumes "\<bar>ms\<bar> < 2 ^ 53"
  shows "floor_seconds (Some (Num ms)) = Num (ms div 1000)"
  using floor_div_1000_exact [OF assms] by simp

lemma floor_seconds_nonneg:
  assumes "\<forall>ms. d = Some (Num ms) \<longrightarrow> 0 \<le> ms"
  shows "\<exists>n. floor_seconds d = Num n \<and> 0 \<le> n"
proof (cases d)
  case None
  then show ?thesis by simp
next
  case (Some x)
  show ?thesis
  proof (cases x)
    case (Num ms)
    with Some assms have "0 \<le> ms" by simp
    then have "0 \<le> floor_div_1000 ms" by (rule floor_div_1000_nonneg)
    with Some Num show ?thesis by simp
  next
    case NaN
    with Some show ?thesis by simp
  qed
qed

subsection \<open>Trimming and \<open>parseInt\<close>\<close>

lemma trim_Nil: "trim [] = []"
  by (simp add: trim_def)

lemma trim_lofi: "trim ''lofi'' = ''lofi''"
  by (simp add: trim_def isWhiteSpace_def)

lemma trim_eq_Nil_iff: "trim s = [] \<longleftrightarrow> (\<forall>c \<in> set s. isWhiteSpace c)"
proof
  assume "trim s = []"
  then have "dropWhile isWhiteSpace (rev (dropWhile isWhiteSpace s)) = []"
    by (simp add: trim_def)
  then have "\<forall>c \<in> set (rev (dropWhile isWhiteSpace s)). isWhiteSpace c"
    by (simp only: dropWhile_eq_Nil_conv)
  then have "\<forall>c \<in> set (dropWhile isWhiteSpace s). isWhiteSpace c"
    by simp
  then have "dropWhile isWhiteSpace s = []"
    by (metis dropWhile_eq_Nil_conv dropWhile_idem)
  then show "\<forall>c \<in> set s. isWhiteSpace c"
    by (simp only: dropWhile_eq_Nil_conv)
next
  assume "\<forall>c \<in> set s. isWhiteSpace c"
  then have d: "dropWhile isWhiteSpace s = []"
    by (simp only: dropWhile_eq_Nil_conv)
  show "trim s = []"
    unfolding trim_def d by simp
qed

lemma isDigit_not_space: "isDigit c \<Longrightarrow> \<not> isWhiteSpace c"
  by (auto simp: isDigit_def isWhiteSpace_def)

lemma isDigit_not_sign: "isDigit c \<Longrightarrow> c \<noteq> CHR ''+'' \<and> c \<noteq> CHR ''-''"
  by (auto simp: isDigit_def)

lemma sign_not_space: "\<not> isWhiteSpace CHR ''+''" "\<not> isWhiteSpace CHR ''-''"
  by (simp_all add: isWhiteSpace_def)

lemma takeWhile_digits_prefix:
  assumes "\<forall>c \<in> set ds. isDigit c" "rest = [] \<or> \<not> isDigit (hd rest)"
  shows "takeWhile isDigit (ds @ rest) = ds"
proof -
  have "takeWhile isDigit rest = []"
    using assms(2) by (cases rest) auto
  with assms(1) show ?thesis
    by (simp add: takeWhile_append2)
qed

lemma parseInt_digits_prefix:
  assumes "ds \<noteq> []" "\<forall>c \<in> set ds. isDigit c" "rest = [] \<or> \<not> isDigit (hd rest)"
  shows "parseInt (ds @ rest) = Num (digits_value ds)"
proof -
  from assms(1) obtain d ds' where ds: "ds = d # ds'"
    by (cases ds) auto
  with assms(2) have d: "isDigit d" by simp
  have S: "trimStart (ds @ rest) = ds @ rest"
    using d ds by (simp add: trimStart_def isDigit_not_space)
  have Z: "takeWhile isDigit (ds @ rest) = ds"
    using assms(2,3) by (rule takeWhile_digits_prefix)
  show ?thesis
    using d isDigit_not_sign [OF d] assms(1) Z
    by (simp add: parseInt_def S Let_def) (simp add: ds)
qed

lemma parseInt_leading_integer:
  assumes s: "s = ws @ sg @ ds @ rest"
    and ws: "\<forall>c \<in> set ws. isWhiteSpace c"
    and sg: "sg = [] \<or> sg = ''+'' \<or> sg = ''-''"
    and ds: "ds \<noteq> []" "\<forall>c \<in> set ds. isDigit c"
  shows "parseInt s \<noteq> NaN"
proof -
  from ds obtain d ds' where d: "ds = d # ds'" "isDigit d"
    by (cases ds) auto
  have "\<not> isWhiteSpace (hd (sg @ ds @ rest))"
    using sg d by (auto simp: sign_not_space isDigit_not_space)
  moreover have "sg @ ds @ rest \<noteq> []"
    using d by simp
  ultimately have "dropWhile isWhiteSpace (sg @ ds @ rest) = sg @ ds @ rest"
    by (cases "sg @ ds @ rest") auto
  with ws have S: "trimStart s = sg @ ds @ rest"
    by (simp add: trimStart_def s dropWhile_append2)
  from sg show ?thesis
  proof (elim disjE)
    assume "sg = []"
    with S d isDigit_not_sign [OF d(2)] show ?thesis
      by (simp add: parseInt_def Let_def)
  next
    assume "sg = ''+''"
    with S d show ?thesis
      by (simp add: parseInt_def Let_def)
  next
    assume "sg = ''-''"
    with S d show ?thesis
      by (simp add: parseInt_def Let_def)
  qed
qed

lemma parseInt_NaN_iff:
  "parseInt s = NaN \<longleftrightarrow>
   \<not> (\<exists>ws sg ds rest. s = ws @ sg @ ds @ rest \<and> (\<forall>c \<in> set ws. isWhiteSpace c) \<and>
        (sg = [] \<or> sg = ''+'' \<or> sg = ''-'') \<and> ds \<noteq> [] \<and> (\<forall>c \<in> set ds. isDigit c))"
proof
  assume "parseInt s = NaN"
  then show "\<not> (\<exists>ws sg ds rest. s = ws @ sg @ ds @ rest \<and> (\<forall>c \<in> set ws. isWhiteSpace c) \<and>
        (sg = [] \<or> sg = ''+'' \<or> sg = ''-'') \<and> ds \<noteq> [] \<and> (\<forall>c \<in> set ds. isDigit c))"
    using parseInt_leading_integer by blast
next
  assume none: "\<not> (\<exists>ws sg ds rest. s = ws @ sg @ ds @ rest \<and> (\<forall>c \<in> set ws. isWhiteSpace c) \<and>
        (sg = [] \<or> sg = ''+'' \<or> sg = ''-'') \<and> ds \<noteq> [] \<and> (\<forall>c \<in> set ds. isDigit c))"
  define S where "S = trimStart s"
  define sg where "sg = (if S \<noteq> [] \<and> (hd S = CHR ''+'' \<or> hd S = CHR ''-'') then [hd S] else [])"
  define S' where "S' = (if S \<noteq> [] \<and> (hd S = CHR ''+'' \<or> hd S = CHR ''-'') then tl S else S)"
  have s: "s = takeWhile isWhiteSpace s @ S"
    by (simp add: S_def trimStart_def)
  have S: "S = sg @ S'"
    by (simp add: sg_def S'_def)
  have S': "S' = takeWhile isDigit S' @ dropWhile isDigit S'"
    by simp
  have "s = takeWhile isWhiteSpace s @ sg @ takeWhile isDigit S' @ dropWhile isDigit S'"
    using s S S' by simp
  moreover have "\<forall>c \<in> set (takeWhile isWhiteSpace s). isWhiteSpace c"
    by (auto dest: set_takeWhileD)
  moreover have "sg = [] \<or> sg = ''+'' \<or> sg = ''-''"
    by (auto simp: sg_def)
  moreover have "\<forall>c \<in> set (takeWhile isDigit S'). isDigit c"
    by (auto dest: set_takeWhileD)
  ultimately have "takeWhile isDigit S' = []"
    using none by blast
  then show "parseInt s = NaN"
    by (simp add: parseInt_def Let_def S_def [symmetric] S'_def [symmetric])
qed

lemmas parseInt_eval = parseInt_def trimStart_def isWhiteSpace_def isDigit_def
  digits_value_def digit_value_def

lemma normalize_limit_cases:
  "normalize_limit rawLimit =
     (case parseInt (ToString rawLimit) of
        NaN \<Rightarrow> Num 10
      | Num n \<Rightarrow> if n \<le> 0 then Num 10 else if 50 < n then Num 50 else Num n)"
  by (simp add: normalize_limit_def Let_def isNaN_def DEFAULT_SEARCH_LIMIT_def MAX_SEARCH_LIMIT_def
      split: jsnum.split)

lemma normalize_limit_range: "\<exists>n. normalize_limit rawLimit = Num n \<and> 1 \<le> n \<and> n \<le> 50"
  by (simp add: normalize_limit_cases split: jsnum.split)

lemma normalize_limit_3: "normalize_limit (QStr ''3'') = Num 3"
  by (simp add: normalize_limit_def parseInt_def trimStart_def isWhiteSpace_def isDigit_def
      digits_value_def digit_value_def isNaN_def DEFAULT_SEARCH_LIMIT_def MAX_SEARCH_LIMIT_def)

subsection \<open>The branches of the handler\<close>

lemma query_accepted:
  assumes "query_q req = QStr s" "trim s \<noteq> []"
  shows "\<not> (\<not> truthy_q (query_q req) \<or> typeof (query_q req) \<noteq> ''string'' \<or>
            trim (the_string (query_q req)) = [])"
  using assms trim_Nil by auto

lemma search_route_rejected:
  assumes "\<not> truthy_q (query_q req) \<or> typeof (query_q req) \<noteq> ''string'' \<or>
           trim (the_string (query_q req)) = []"
  shows "search_route cl settled req =
     (Some \<lparr> status = 400, body = BadRequestBody
        ''Bad Request: Missing or invalid search query. Please provide a non-empty \"q\" parameter.'' \<rparr>, [])"
  using assms unfolding search_route_def Let_def by (simp only: if_True)

lemma search_route_accepted:
  assumes "query_q req = QStr s" "trim s \<noteq> []"
  shows "search_route cl settled req =
     (let query = query_q req; rawLimit = query_limit req; limit = normalize_limit rawLimit
      in case search cl query ''track'' limit of
           Inl error \<Rightarrow>
             (Some \<lparr> status = 500, body = InternalErrorBody ''Internal Server Error''
                 ''An unexpected error occurred while processing the SoundCloud search.''
                 ''Ehsan Fazeli'' \<rparr>,
              [SearchCall query ''track'' limit])
         | Inr searchResults \<Rightarrow>
             if searchResults = []
             then (Some \<lparr> status = 200, body = SearchBody
                     \<lparr> query = query, requested_limit = rawLimit, processed_limit = limit,
                       actual_result_count = 0, developer = ''Ehsan Fazeli'', results = [],
                       message = Some ''No tracks found for this query.'' \<rparr> \<rparr>,
                   [SearchCall query ''track'' limit])
             else
               let promises = detailedResultsPromises cl searchResults;
                   calls = SearchCall query ''track'' limit # concat (map snd promises)
               in (case Promise_all settled (map fst promises) of
                     None \<Rightarrow> (None, calls)
                   | Some detailedResults \<Rightarrow>
                       (Some \<lparr> status = 200, body = SearchBody
                          \<lparr> query = query, requested_limit = rawLimit, processed_limit = limit,
                            actual_result_count = length detailedResults,
                            developer = ''Ehsan Fazeli'', results = detailedResults,
                            message = None \<rparr> \<rparr>,
                        calls)))"
  using query_accepted [OF assms] unfolding search_route_def Let_def by (simp only: if_False)

lemma search_route_joined:
  assumes q: "query_q req = QStr s" "trim s \<noteq> []"
    and found: "search cl (query_q req) ''track'' (normalize_limit (query_limit req)) = Inr candidates"
    and nonempty: "candidates \<noteq> []"
    and settled: "settles_all (length candidates) settled"
  shows "search_route cl settled req =
     (Some \<lparr> status = 200, body = SearchBody
        \<lparr> query = query_q req, requested_limit = query_limit req,
          processed_limit = normalize_limit (query_limit req),
          actual_result_count = length candidates,
          developer = ''Ehsan Fazeli'',
          results = map fst (detailedResultsPromises cl candidates),
          message = None \<rparr> \<rparr>,
      SearchCall (query_q req) ''track'' (normalize_limit (query_limit req)) #
        concat (map snd (detailedResultsPromises cl candidates)))"
proof -
  let ?ps = "map fst (detailedResultsPromises cl candidates)"
  have "settles_all (length ?ps) settled"
    using settled by (simp add: length_detailedResultsPromises)
  then have "Promise_all settled ?ps = Some ?ps"
    by (rule Promise_all_settled)
  with found nonempty show ?thesis
    by (simp add: search_route_accepted [OF q] Let_def length_detailedResultsPromises)
qed

lemma search_route_limits:
  assumes q: "query_q req = QStr s" "trim s \<noteq> []"
    and found: "search cl (query_q req) ''track'' (normalize_limit (query_limit req)) = Inr candidates"
    and settled: "settles_all (length candidates) settled"
  shows "\<exists>b. fst (search_route cl settled req) = Some \<lparr> status = 200, body = SearchBody b \<rparr> \<and>
           requested_limit b = query_limit req \<and>
           processed_limit b = normalize_limit (query_limit req)"
proof (cases "candidates = []")
  case True
  with found show ?thesis
    by (simp add: search_route_accepted [OF q] Let_def)
next
  case False
  show ?thesis
    by (simp add: search_route_joined [OF q found False settled])
qed

lemma search_route_calls:
  assumes q: "query_q req = QStr s" "trim s \<noteq> []"
    and found: "search cl (query_q req) ''track'' (normalize_limit (query_limit req)) = Inr candidates"
    and settled: "settles_all (length candidates) settled"
  shows "snd (search_route cl settled req) =
     SearchCall (query_q req) ''track'' (normalize_limit (query_limit req)) #
       [GetSongInfoCall (song_url t). Some t \<leftarrow> candidates, truthy (song_url t)]"
proof (cases "candidates = []")
  case True
  with found show ?thesis
    by (simp add: search_route_accepted [OF q] Let_def)
next
  case False
  show ?thesis
    by (simp add: search_route_joined [OF q found False settled] calls_of_detailedResultsPromises)
qed

section \<open>The claims\<close>

subsection \<open>C1: one record for every candidate, in the candidates' order\<close>

text \<open>
  Claim C1. Whatever list of candidates the search returns, the response has status 200
  and \<open>actual_result_count\<close> equals the length of \<open>results\<close>, which equals the number of
  candidates; the record at position \<open>i\<close> is the record the mapped function produces for
  the candidate at position \<open>i\<close>. This holds for every client, hence whichever lookups
  fail, and for every order in which the lookups settle.
\<close>

theorem results_one_per_candidate:
  assumes q: "query_q req = QStr s" "trim s \<noteq> []"
    and found: "search cl (query_q req) ''track'' (normalize_limit (query_limit req)) = Inr candidates"
    and settled: "settles_all (length candidates) settled"
  shows "\<exists>b. fst (search_route cl settled req) = Some \<lparr> status = 200, body = SearchBody b \<rparr> \<and>
           actual_result_count b = length (results b) \<and>
           length (results b) = length candidates \<and>
           (\<forall>i < length candidates. results b ! i = fst (detailedResultsPromise cl i (candidates ! i)))"
proof (cases "candidates = []")
  case True
  with found show ?thesis
    by (simp add: search_route_accepted [OF q] Let_def)
next
  case False
  show ?thesis
    by (simp add: search_route_joined [OF q found False settled]
        length_detailedResultsPromises nth_detailedResultsPromises)
qed

theorem results_one_per_candidate_witness:
  "\<exists>b. fst (search_route ex_client [2, 0, 1] ex_request) = Some \<lparr> status = 200, body = SearchBody b \<rparr> \<and>
       actual_result_count b = 3 \<and> length (results b) = 3 \<and>
       results b ! 0 = fst (detailedResultsPromise ex_client 0 (Some ex_song_a)) \<and>
       results b ! 1 = fst (detailedResultsPromise ex_client 1 (Some ex_song_b)) \<and>
       results b ! 2 = fst (detailedResultsPromise ex_client 2 (Some ex_song_no_url))"
proof -
  have q: "query_q ex_request = QStr ''lofi''" "trim ''lofi'' \<noteq> []"
    by (simp_all add: ex_request_def trim_lofi)
  have found: "search ex_client (query_q ex_request) ''track'' (normalize_limit (query_limit ex_request)) =
      Inr [Some ex_song_a, Some ex_song_b, Some ex_song_no_url]"
    by (simp add: ex_client_def)
  have settled: "settles_all (length [Some ex_song_a, Some ex_song_b, Some ex_song_no_url]) [2, 0, 1]"
    by (auto simp: settles_all_def)
  from results_one_per_candidate [OF q found settled] show ?thesis
    by (auto simp: nth_Cons')
qed

subsection \<open>C2: one failing lookup among the candidates\<close>

text \<open>
  The claim as stated fails in two places. Two candidates are found; the first has no
  url, so no lookup is made for it, and the lookup of the second throws: exactly one
  lookup throws. The record of the failing candidate, which has no title, gets the title
  \<^verbatim>\<open>'Unknown Title (fetch failed)'\<close>, where the success path's rule gives
  \<^verbatim>\<open>'Unknown Title'\<close>; and the other record has \<open>fetchError\<close> true.
\<close>

theorem one_failed_lookup_counterexample:
  "\<exists>b. fst (search_route cx_client_failing [0, 1] ex_request) =
          Some \<lparr> status = 200, body = SearchBody b \<rparr> \<and>
       snd (search_route cx_client_failing [0, 1] ex_request) =
          [SearchCall (QStr ''lofi'') ''track'' (Num 3),
           GetSongInfoCall (Str ''https://soundcloud.com/b/untitled'')] \<and>
       getSongInfo cx_client_failing 1 (song_url ex_song_b) = Inl (Error ''429 Too Many Requests'') \<and>
       song_title ex_song_b = Undefined \<and>
       title (results b ! 1) = Str ''Unknown Title (fetch failed)'' \<and>
       title (detailed_track ex_song_b ex_song_b) = Str ''Unknown Title'' \<and>
       fetchError (results b ! 0) = True"
proof -
  have q: "query_q ex_request = QStr ''lofi''" "trim ''lofi'' \<noteq> []"
    by (simp_all add: ex_request_def trim_lofi)
  have found: "search cx_client_failing (query_q ex_request) ''track''
      (normalize_limit (query_limit ex_request)) = Inr [Some ex_song_no_url, Some ex_song_b]"
    by (simp add: cx_client_failing_def)
  have settled: "settles_all (length [Some ex_song_no_url, Some ex_song_b]) [0, 1]"
    by (auto simp: settles_all_def)
  have nonempty: "[Some ex_song_no_url, Some ex_song_b] \<noteq> []"
    by simp
  show ?thesis
    unfolding search_route_joined [OF q found nonempty settled]
    by (simp add: detailedResultsPromises_def
        detailedResultsPromise_def ex_song_no_url_def ex_song_b_def cx_client_failing_def
        missing_url_track_def fetch_failed_track_def detailed_track_def js_or_def
        ex_request_def normalize_limit_3)
qed

text \<open>
  Claim C2, amended. When \<open>q\<close> is valid, the search returns N candidates and the lookup
  of exactly one of them, at position \<open>k\<close>, throws, the response has status 200 and N
  records in the candidates' order. The record at \<open>k\<close> is built from that candidate's own
  fields with the defaults of the catch block (title \<^verbatim>\<open>'Unknown Title (fetch failed)'\<close>,
  author \<^verbatim>\<open>'Unknown Artist'\<close>, thumbnail \<^verbatim>\<open>null\<close>, \<open>duration_seconds\<close> computed by
  \<^verbatim>\<open>Math.floor\<close> from the candidate's duration, which is the exact quotient rounded
  down for a duration of magnitude below 2^53 milliseconds, or 0, \<open>genre\<close> and
  \<open>publishedAt\<close> always \<^verbatim>\<open>'Unknown'\<close>), has \<open>fetchError\<close> true and \<open>errorMessage\<close>
  equal to the message of the error; every other record whose candidate has a url has
  \<open>fetchError\<close> false.
\<close>

theorem one_failed_lookup_is_contained:
  assumes q: "query_q req = QStr s" "trim s \<noteq> []"
    and found: "search cl (query_q req) ''track'' (normalize_limit (query_limit req)) = Inr candidates"
    and settled: "settles_all (length candidates) settled"
    and k: "k < length candidates" "candidates ! k = Some t" "truthy (song_url t)"
    and failed: "getSongInfo cl k (song_url t) = Inl err"
    and others: "\<forall>j < length candidates. j \<noteq> k \<longrightarrow>
        (\<forall>tj e. candidates ! j = Some tj \<longrightarrow> truthy (song_url tj) \<longrightarrow>
           getSongInfo cl j (song_url tj) \<noteq> Inl e)"
  shows "\<exists>b. fst (search_route cl settled req) = Some \<lparr> status = 200, body = SearchBody b \<rparr> \<and>
     length (results b) = length candidates \<and>
     (\<forall>i < length candidates. results b ! i = fst (detailedResultsPromise cl i (candidates ! i))) \<and>
     results b ! k =
       \<lparr> title = (if truthy (song_title t) then song_title t else Str ''Unknown Title (fetch failed)''),
         url = song_url t,
         author = (if truthy (opt_name (song_author t)) then opt_name (song_author t)
                   else Str ''Unknown Artist''),
         thumbnail = (if truthy (song_thumbnail t) then song_thumbnail t else Null),
         duration_seconds = floor_seconds (song_duration t),
         genre = Str ''Unknown'',
         publishedAt = Str ''Unknown'',
         fetchError = True,
         errorMessage = Some (error_message err) \<rparr> \<and>
     (\<forall>ms. song_duration t = Some (Num ms) \<and> \<bar>ms\<bar> < 2 ^ 53 \<longrightarrow>
        duration_seconds (results b ! k) = Num (ms div 1000)) \<and>
     (song_duration t = None \<longrightarrow> duration_seconds (results b ! k) = Num 0) \<and>
     (\<forall>j < length candidates. j \<noteq> k \<longrightarrow>
        (\<forall>tj. candidates ! j = Some tj \<longrightarrow> truthy (song_url tj) \<longrightarrow> fetchError (results b ! j) = False))"
proof -
  from k have nonempty: "candidates \<noteq> []" by auto
  let ?rs = "map fst (detailedResultsPromises cl candidates)"
  have nth: "\<And>i. i < length candidates \<Longrightarrow> ?rs ! i = fst (detailedResultsPromise cl i (candidates ! i))"
    by (simp add: length_detailedResultsPromises nth_detailedResultsPromises)
  have at_k: "fst (detailedResultsPromise cl k (candidates ! k)) =
       \<lparr> title = (if truthy (song_title t) then song_title t else Str ''Unknown Title (fetch failed)''),
         url = song_url t,
         author = (if truthy (opt_name (song_author t)) then opt_name (song_author t)
                   else Str ''Unknown Artist''),
         thumbnail = (if truthy (song_thumbnail t) then song_thumbnail t else Null),
         duration_seconds = floor_seconds (song_duration t),
         genre = Str ''Unknown'',
         publishedAt = Str ''Unknown'',
         fetchError = True,
         errorMessage = Some (error_message err) \<rparr>"
    using k failed
    by (simp add: detailedResultsPromise_def fetch_failed_track_def js_or_def)
  have exact: "duration_seconds (fst (detailedResultsPromise cl k (candidates ! k))) = Num (ms div 1000)"
    if h: "song_duration t = Some (Num ms) \<and> \<bar>ms\<bar> < 2 ^ 53" for ms
  proof -
    from h have d: "song_duration t = Some (Num ms)" and bound: "\<bar>ms\<bar> < 2 ^ 53"
      by blast+
    have "duration_seconds (fst (detailedResultsPromise cl k (candidates ! k))) =
        floor_seconds (song_duration t)"
      by (simp add: at_k)
    also have "\<dots> = Num (ms div 1000)"
      unfolding d using bound by (rule floor_seconds_exact)
    finally show ?thesis .
  qed
  have none: "duration_seconds (fst (detailedResultsPromise cl k (candidates ! k))) = Num 0"
    if "song_duration t = None"
    using that by (simp add: at_k)
  have elsewhere: "fetchError (fst (detailedResultsPromise cl j (candidates ! j))) = False"
    if "j < length candidates" "j \<noteq> k" "candidates ! j = Some tj" "truthy (song_url tj)" for j tj
  proof (cases "getSongInfo cl j (song_url tj)")
    case (Inl e)
    with others that show ?thesis by blast
  next
    case (Inr songInfo)
    with that show ?thesis
      by (simp add: detailedResultsPromise_def detailed_track_def)
  qed
  show ?thesis
    unfolding search_route_joined [OF q found nonempty settled]
    using nth at_k exact none elsewhere k(1)
    by (simp add: length_detailedResultsPromises)
qed

theorem one_failed_lookup_is_contained_witness:
  "\<exists>b. fst (search_route ex_client [2, 0, 1] ex_request) = Some \<lparr> status = 200, body = SearchBody b \<rparr> \<and>
     length (results b) = 3 \<and>
     results b ! 1 =
       \<lparr> title = Str ''Unknown Title (fetch failed)'',
         url = Str ''https://soundcloud.com/b/untitled'',
         author = Str ''Unknown Artist'',
         thumbnail = Null,
         duration_seconds = Num 0,
         genre = Str ''Unknown'',
         publishedAt = Str ''Unknown'',
         fetchError = True,
         errorMessage = Some ''boom'' \<rparr> \<and>
     fetchError (results b ! 0) = False"
proof -
  have q: "query_q ex_request = QStr ''lofi''" "trim ''lofi'' \<noteq> []"
    by (simp_all add: ex_request_def trim_lofi)
  have found: "search ex_client (query_q ex_request) ''track'' (normalize_limit (query_limit ex_request)) =
      Inr [Some ex_song_a, Some ex_song_b, Some ex_song_no_url]"
    by (simp add: ex_client_def)
  have settled: "settles_all (length [Some ex_song_a, Some ex_song_b, Some ex_song_no_url]) [2, 0, 1]"
    by (auto simp: settles_all_def)
  have k: "1 < length [Some ex_song_a, Some ex_song_b, Some ex_song_no_url]"
    "[Some ex_song_a, Some ex_song_b, Some ex_song_no_url] ! 1 = Some ex_song_b"
    "truthy (song_url ex_song_b)"
    by (simp_all add: ex_song_b_def)
  have failed: "getSongInfo ex_client 1 (song_url ex_song_b) = Inl (Error ''boom'')"
    by (simp add: ex_client_def)
  have others: "\<forall>j < length [Some ex_song_a, Some ex_song_b, Some ex_song_no_url]. j \<noteq> 1 \<longrightarrow>
        (\<forall>tj e. [Some ex_song_a, Some ex_song_b, Some ex_song_no_url] ! j = Some tj \<longrightarrow>
           truthy (song_url tj) \<longrightarrow> getSongInfo ex_client j (song_url tj) \<noteq> Inl e)"
    by (simp add: ex_client_def)
  from one_failed_lookup_is_contained [OF q found settled k failed others]
  obtain b where b: "fst (search_route ex_client [2, 0, 1] ex_request) =
        Some \<lparr> status = 200, body = SearchBody b \<rparr>"
      "length (results b) = length [Some ex_song_a, Some ex_song_b, Some ex_song_no_url]"
      "results b ! 1 =
       \<lparr> title = (if truthy (song_title ex_song_b) then song_title ex_song_b
                  else Str ''Unknown Title (fetch failed)''),
         url = song_url ex_song_b,
         author = (if truthy (opt_name (song_author ex_song_b)) then opt_name (song_author ex_song_b)
                   else Str ''Unknown Artist''),
         thumbnail = (if truthy (song_thumbnail ex_song_b) then song_thumbnail ex_song_b else Null),
         duration_seconds = floor_seconds (song_duration ex_song_b),
         genre = Str ''Unknown'',
         publishedAt = Str ''Unknown'',
         fetchError = True,
         errorMessage = Some (error_message (Error ''boom'')) \<rparr>"
      "\<forall>j < length [Some ex_song_a, Some ex_song_b, Some ex_song_no_url]. j \<noteq> 1 \<longrightarrow>
        (\<forall>tj. [Some ex_song_a, Some ex_song_b, Some ex_song_no_url] ! j = Some tj \<longrightarrow>
           truthy (song_url tj) \<longrightarrow> fetchError (results b ! j) = False)"
    by blast
  from b(4) have "fetchError (results b ! 0) = False"
    by (simp add: ex_song_a_def)
  with b(1,2,3) show ?thesis
    by (auto simp: ex_song_b_def)
qed

subsection \<open>C3: the record of a successful lookup\<close>

text \<open>
  The claim as stated fails in the duration. The handler divides as the language does,
  on doubles, and rounds the rounded quotient down: for a payload with the duration 2^63
  milliseconds (9223372036854775808, a double) the quotient 9223372036854775.808 is
  rounded to the double 9223372036854776 before \<^verbatim>\<open>Math.floor\<close> sees it, so
  \<open>duration_seconds\<close> is 9223372036854776, where the floor of the exact quotient is
  9223372036854775.
\<close>

theorem detail_success_counterexample:
  "song_duration cx_song_huge = Some (Num 9223372036854775808) \<and>
   getSongInfo cx_client_huge 0 (song_url ex_song_a) = Inr cx_song_huge \<and>
   duration_seconds (fst (detailedResultsPromise cx_client_huge 0 (Some ex_song_a))) =
     Num 9223372036854776 \<and>
   (9223372036854775808 :: int) div 1000 = 9223372036854775 \<and>
   (\<exists>b. fst (search_route cx_client_huge [0] ex_request) =
          Some \<lparr> status = 200, body = SearchBody b \<rparr> \<and>
        duration_seconds (results b ! 0) = Num 9223372036854776)"
proof -
  have q: "query_q ex_request = QStr ''lofi''" "trim ''lofi'' \<noteq> []"
    by (simp_all add: ex_request_def trim_lofi)
  have found: "search cx_client_huge (query_q ex_request) ''track''
      (normalize_limit (query_limit ex_request)) = Inr [Some ex_song_a]"
    by (simp add: cx_client_huge_def)
  have settled: "settles_all (length [Some ex_song_a]) [0]"
    by (auto simp: settles_all_def)
  have nonempty: "[Some ex_song_a] \<noteq> []"
    by simp
  have one: "duration_seconds (fst (detailedResultsPromise cx_client_huge 0 (Some ex_song_a))) =
      Num 9223372036854776"
    by (simp add: detailedResultsPromise_def cx_client_huge_def ex_song_a_def cx_song_huge_def
        detailed_track_def floor_div_1000_huge)
  have "\<exists>b. fst (search_route cx_client_huge [0] ex_request) =
          Some \<lparr> status = 200, body = SearchBody b \<rparr> \<and>
        duration_seconds (results b ! 0) = Num 9223372036854776"
    unfolding search_route_joined [OF q found nonempty settled]
    by (simp add: detailedResultsPromises_def one)
  with one show ?thesis
    by (simp add: cx_song_huge_def cx_client_huge_def)
qed

text \<open>
  Claim C3, amended. For a candidate with a url whose lookup succeeds, every field of the
  record comes from the detail payload when the payload's value is truthy and is the
  default otherwise, so a missing \<open>title\<close> gives \<^verbatim>\<open>'Unknown Title'\<close>, a missing author
  name \<^verbatim>\<open>'Unknown Artist'\<close>, a missing \<open>thumbnail\<close> \<^verbatim>\<open>null\<close>, a missing \<open>genre\<close> or
  \<open>publishedAt\<close> \<^verbatim>\<open>'Unknown'\<close>; \<open>url\<close> is the payload's url, and the candidate's url
  when the payload has none. \<open>duration_seconds\<close> is \<^verbatim>\<open>Math.floor\<close> of the payload's
  duration divided by 1000 as the language divides, which for a duration of magnitude
  below 2^53 milliseconds is the exact quotient rounded down, and it is 0 when there is
  no duration. One lookup is made.
\<close>

theorem detail_success_defaults:
  assumes has_url: "truthy (song_url t)"
    and found: "getSongInfo cl i (song_url t) = Inr songInfo"
  shows "detailedResultsPromise cl i (Some t) =
    (\<lparr> title = (if truthy (song_title songInfo) then song_title songInfo else Str ''Unknown Title''),
        url = (if truthy (song_url songInfo) then song_url songInfo else song_url t),
        author = (if truthy (opt_name (song_author songInfo)) then opt_name (song_author songInfo)
                  else Str ''Unknown Artist''),
        thumbnail = (if truthy (song_thumbnail songInfo) then song_thumbnail songInfo else Null),
        duration_seconds = floor_seconds (song_duration songInfo),
        genre = (if truthy (song_genre songInfo) then song_genre songInfo else Str ''Unknown''),
        publishedAt = (if truthy (song_publishedAt songInfo) then song_publishedAt songInfo
                       else Str ''Unknown''),
        fetchError = False,
        errorMessage = None \<rparr>,
     [GetSongInfoCall (song_url t)]) \<and>
    (\<forall>ms. song_duration songInfo = Some (Num ms) \<and> \<bar>ms\<bar> < 2 ^ 53 \<longrightarrow>
       duration_seconds (fst (detailedResultsPromise cl i (Some t))) = Num (ms div 1000)) \<and>
    (song_duration songInfo = None \<longrightarrow>
       duration_seconds (fst (detailedResultsPromise cl i (Some t))) = Num 0)"
proof -
  have built: "detailedResultsPromise cl i (Some t) =
      (detailed_track t songInfo, [GetSongInfoCall (song_url t)])"
    using assms by (simp add: detailedResultsPromise_def)
  have exact: "duration_seconds (fst (detailedResultsPromise cl i (Some t))) = Num (ms div 1000)"
    if h: "song_duration songInfo = Some (Num ms) \<and> \<bar>ms\<bar> < 2 ^ 53" for ms
  proof -
    from h have d: "song_duration songInfo = Some (Num ms)" and bound: "\<bar>ms\<bar> < 2 ^ 53"
      by blast+
    have "duration_seconds (fst (detailedResultsPromise cl i (Some t))) =
        floor_seconds (song_duration songInfo)"
      by (simp add: built detailed_track_def)
    also have "\<dots> = Num (ms div 1000)"
      unfolding d using bound by (rule floor_seconds_exact)
    finally show ?thesis .
  qed
  have none: "duration_seconds (fst (detailedResultsPromise cl i (Some t))) = Num 0"
    if "song_duration songInfo = None"
    using that by (simp add: built detailed_track_def)
  have shape: "detailedResultsPromise cl i (Some t) =
    (\<lparr> title = (if truthy (song_title songInfo) then song_title songInfo else Str ''Unknown Title''),
        url = (if truthy (song_url songInfo) then song_url songInfo else song_url t),
        author = (if truthy (opt_name (song_author songInfo)) then opt_name (song_author songInfo)
                  else Str ''Unknown Artist''),
        thumbnail = (if truthy (song_thumbnail songInfo) then song_thumbnail songInfo else Null),
        duration_seconds = floor_seconds (song_duration songInfo),
        genre = (if truthy (song_genre songInfo) then song_genre songInfo else Str ''Unknown''),
        publishedAt = (if truthy (song_publishedAt songInfo) then song_publishedAt songInfo
                       else Str ''Unknown''),
        fetchError = False,
        errorMessage = None \<rparr>,
     [GetSongInfoCall (song_url t)])"
    by (simp add: built detailed_track_def js_or_def)
  from shape exact none show ?thesis
    by blast
qed

theorem detail_success_defaults_witness:
  "detailedResultsPromise ex_client_sparse 0 (Some ex_song_a) =
    (\<lparr> title = Str ''Unknown Title'',
        url = Str ''https://soundcloud.com/a/night-drive'',
        author = Str ''Unknown Artist'',
        thumbnail = Null,
        duration_seconds = Num 61,
        genre = Str ''Unknown'',
        publishedAt = Str ''Unknown'',
        fetchError = False,
        errorMessage = None \<rparr>,
     [GetSongInfoCall (Str ''https://soundcloud.com/a/night-drive'')]) \<and>
   detailedResultsPromise ex_client 0 (Some ex_song_a) =
    (\<lparr> title = Str ''Night Drive'',
        url = Str ''https://soundcloud.com/a/night-drive'',
        author = Str ''Ada'',
        thumbnail = Str ''https://i1.sndcdn.com/a.jpg'',
        duration_seconds = Num 185,
        genre = Str ''Lofi'',
        publishedAt = Obj [],
        fetchError = False,
        errorMessage = None \<rparr>,
     [GetSongInfoCall (Str ''https://soundcloud.com/a/night-drive'')])"
proof -
  have has_url: "truthy (song_url ex_song_a)"
    by (simp add: ex_song_a_def)
  have sparse: "getSongInfo ex_client_sparse 0 (song_url ex_song_a) = Inr ex_info_sparse"
    by (simp add: ex_client_sparse_def)
  have full: "getSongInfo ex_client 0 (song_url ex_song_a) = Inr ex_song_a"
    by (simp add: ex_client_def)
  note at_sparse = detail_success_defaults [OF has_url sparse]
  note at_full = detail_success_defaults [OF has_url full]
  have "song_duration ex_info_sparse = Some (Num 61999) \<and> \<bar>61999 :: int\<bar> < 2 ^ 53"
    by (simp add: ex_info_sparse_def)
  with at_sparse [THEN conjunct2, THEN conjunct1]
  have d_sparse: "duration_seconds (fst (detailedResultsPromise ex_client_sparse 0 (Some ex_song_a))) =
      Num (61999 div 1000)"
    by blast
  have "song_duration ex_song_a = Some (Num 185999) \<and> \<bar>185999 :: int\<bar> < 2 ^ 53"
    by (simp add: ex_song_a_def)
  with at_full [THEN conjunct2, THEN conjunct1]
  have d_full: "duration_seconds (fst (detailedResultsPromise ex_client 0 (Some ex_song_a))) =
      Num (185999 div 1000)"
    by blast
  from d_sparse have f_sparse: "floor_seconds (song_duration ex_info_sparse) = Num 61"
    unfolding at_sparse [THEN conjunct1] by simp
  from d_full have f_full: "floor_seconds (song_duration ex_song_a) = Num 185"
    unfolding at_full [THEN conjunct1] by simp
  show ?thesis
    unfolding at_sparse [THEN conjunct1] at_full [THEN conjunct1] f_sparse f_full
    by (simp add: ex_song_a_def ex_info_sparse_def)
qed

subsection \<open>C4: the limit\<close>

text \<open>
  Claim C4. The limit the handler works with is 10 when \<open>limit\<close> is absent, when
  \<open>parseInt\<close> finds no integer in it, and when the integer is 0 or less; it is 50 when the
  integer exceeds 50; otherwise it is the integer; so it always lies between 1 and 50.
  Whatever the limit was, a request with a valid \<open>q\<close> whose search succeeds is answered
  with status 200; the body carries \<open>requested_limit\<close>, the parameter as it was given,
  and \<open>processed_limit\<close>, the limit the handler worked with, which is the limit the
  search was called with.
\<close>

theorem limit_normalized:
  "(parseInt (ToString rawLimit) = NaN \<longrightarrow> normalize_limit rawLimit = Num 10) \<and>
   (\<forall>n. parseInt (ToString rawLimit) = Num n \<and> n \<le> 0 \<longrightarrow> normalize_limit rawLimit = Num 10) \<and>
   (\<forall>n. parseInt (ToString rawLimit) = Num n \<and> 50 < n \<longrightarrow> normalize_limit rawLimit = Num 50) \<and>
   (\<forall>n. parseInt (ToString rawLimit) = Num n \<and> 0 < n \<and> n \<le> 50 \<longrightarrow> normalize_limit rawLimit = Num n) \<and>
   (rawLimit = Absent \<longrightarrow> normalize_limit rawLimit = Num 10) \<and>
   (\<exists>n. normalize_limit rawLimit = Num n \<and> 1 \<le> n \<and> n \<le> 50) \<and>
   (query_q req = QStr s \<and> trim s \<noteq> [] \<and> query_limit req = rawLimit \<and>
    search cl (query_q req) ''track'' (normalize_limit rawLimit) = Inr candidates \<and>
    settles_all (length candidates) settled \<longrightarrow>
      (\<exists>b. fst (search_route cl settled req) = Some \<lparr> status = 200, body = SearchBody b \<rparr> \<and>
           requested_limit b = rawLimit \<and> processed_limit b = normalize_limit rawLimit) \<and>
      hd (snd (search_route cl settled req)) =
        SearchCall (query_q req) ''track'' (normalize_limit rawLimit))"
proof (intro conjI impI allI)
  show "normalize_limit rawLimit = Num 10" if "parseInt (ToString rawLimit) = NaN"
    using that by (simp add: normalize_limit_cases)
  show "normalize_limit rawLimit = Num 10" if "parseInt (ToString rawLimit) = Num n \<and> n \<le> 0" for n
    using that by (simp add: normalize_limit_cases)
  show "normalize_limit rawLimit = Num 50" if "parseInt (ToString rawLimit) = Num n \<and> 50 < n" for n
    using that by (simp add: normalize_limit_cases)
  show "normalize_limit rawLimit = Num n" if "parseInt (ToString rawLimit) = Num n \<and> 0 < n \<and> n \<le> 50" for n
    using that by (simp add: normalize_limit_cases)
  show "normalize_limit rawLimit = Num 10" if "rawLimit = Absent"
    using that by (simp add: normalize_limit_cases parseInt_eval)
  show "\<exists>n. normalize_limit rawLimit = Num n \<and> 1 \<le> n \<and> n \<le> 50"
    by (rule normalize_limit_range)
next
  assume run: "query_q req = QStr s \<and> trim s \<noteq> [] \<and> query_limit req = rawLimit \<and>
        search cl (query_q req) ''track'' (normalize_limit rawLimit) = Inr candidates \<and>
        settles_all (length candidates) settled"
  then have q: "query_q req = QStr s" "trim s \<noteq> []"
    and found: "search cl (query_q req) ''track'' (normalize_limit (query_limit req)) = Inr candidates"
    and settled: "settles_all (length candidates) settled"
    and raw: "query_limit req = rawLimit"
    by auto
  from search_route_limits [OF q found settled]
  show "\<exists>b. fst (search_route cl settled req) = Some \<lparr> status = 200, body = SearchBody b \<rparr> \<and>
           requested_limit b = rawLimit \<and> processed_limit b = normalize_limit rawLimit"
    unfolding raw .
  from search_route_calls [OF q found settled]
  show "hd (snd (search_route cl settled req)) =
        SearchCall (query_q req) ''track'' (normalize_limit rawLimit)"
    unfolding raw by simp
qed

theorem limit_normalized_witness:
  "normalize_limit Absent = Num 10 \<and>
   normalize_limit (QStr ''abc'') = Num 10 \<and>
   normalize_limit (QStr ''-5'') = Num 10 \<and>
   normalize_limit (QStr ''0'') = Num 10 \<and>
   normalize_limit (QStr ''75'') = Num 50 \<and>
   normalize_limit (QStr ''25'') = Num 25 \<and>
   (\<exists>b. fst (search_route ex_client [2, 0, 1] ex_request_over) =
          Some \<lparr> status = 200, body = SearchBody b \<rparr> \<and>
        requested_limit b = QStr ''75'' \<and> processed_limit b = Num 50) \<and>
   hd (snd (search_route ex_client [2, 0, 1] ex_request_over)) =
     SearchCall (QStr ''lofi'') ''track'' (Num 50)"
proof -
  have p: "parseInt (ToString Absent) = NaN" "parseInt (ToString (QStr ''abc'')) = NaN"
    "parseInt (ToString (QStr ''-5'')) = Num (- 5)" "parseInt (ToString (QStr ''0'')) = Num 0"
    "parseInt (ToString (QStr ''75'')) = Num 75" "parseInt (ToString (QStr ''25'')) = Num 25"
    by (simp_all add: parseInt_eval)
  note at_75 = limit_normalized [of "QStr ''75''" ex_request_over "''lofi''" ex_client
        "[Some ex_song_a, Some ex_song_b, Some ex_song_no_url]" "[2, 0, 1]"]
  have over: "normalize_limit (QStr ''75'') = Num 50"
    using at_75 [THEN conjunct2, THEN conjunct2, THEN conjunct1] p(5) by simp
  have run: "query_q ex_request_over = QStr ''lofi'' \<and> trim ''lofi'' \<noteq> [] \<and>
      query_limit ex_request_over = QStr ''75'' \<and>
      search ex_client (query_q ex_request_over) ''track'' (normalize_limit (QStr ''75'')) =
        Inr [Some ex_song_a, Some ex_song_b, Some ex_song_no_url] \<and>
      settles_all (length [Some ex_song_a, Some ex_song_b, Some ex_song_no_url]) [2, 0, 1]"
    by (auto simp: ex_request_over_def trim_lofi ex_client_def settles_all_def)
  have handler: "(\<exists>b. fst (search_route ex_client [2, 0, 1] ex_request_over) =
          Some \<lparr> status = 200, body = SearchBody b \<rparr> \<and>
        requested_limit b = QStr ''75'' \<and> processed_limit b = normalize_limit (QStr ''75'')) \<and>
      hd (snd (search_route ex_client [2, 0, 1] ex_request_over)) =
        SearchCall (query_q ex_request_over) ''track'' (normalize_limit (QStr ''75''))"
    using at_75 [THEN conjunct2, THEN conjunct2, THEN conjunct2, THEN conjunct2, THEN conjunct2,
        THEN conjunct2] run
    by (rule mp)
  have absent: "normalize_limit Absent = Num 10"
    using limit_normalized [of Absent, THEN conjunct1] p(1) by simp
  have invalid: "normalize_limit (QStr ''abc'') = Num 10"
    using limit_normalized [of "QStr ''abc''", THEN conjunct1] p(2) by simp
  have negative: "normalize_limit (QStr ''-5'') = Num 10"
    using limit_normalized [of "QStr ''-5''", THEN conjunct2, THEN conjunct1] p(3) by simp
  have zero: "normalize_limit (QStr ''0'') = Num 10"
    using limit_normalized [of "QStr ''0''", THEN conjunct2, THEN conjunct1] p(4) by simp
  have within: "normalize_limit (QStr ''25'') = Num 25"
    using limit_normalized [of "QStr ''25''", THEN conjunct2, THEN conjunct2, THEN conjunct2,
        THEN conjunct1] p(6) by simp
  from handler absent invalid negative zero within show ?thesis
    by (simp add: over ex_request_over_def)
qed

subsection \<open>C5: a missing, non-string or blank query is rejected before any upstream call\<close>

text \<open>
  Claim C5. When \<open>q\<close> is absent, is not a string, or is a string that is empty after
  trimming (the empty string and every string of white space alone), the handler answers
  with status 400 and a body that has an \<open>error\<close> field, and the trace of upstream calls
  is empty: neither \<open>search\<close> nor \<open>getSongInfo\<close> is called.
\<close>

theorem invalid_query_rejected:
  assumes "query_q req = Absent \<or> typeof (query_q req) \<noteq> ''string'' \<or>
           (\<exists>s. query_q req = QStr s \<and> (trim s = [] \<or> (\<forall>c \<in> set s. isWhiteSpace c)))"
  shows "search_route cl settled req =
     (Some \<lparr> status = 400, body = BadRequestBody
        ''Bad Request: Missing or invalid search query. Please provide a non-empty \"q\" parameter.'' \<rparr>, [])"
proof (rule search_route_rejected)
  from assms show "\<not> truthy_q (query_q req) \<or> typeof (query_q req) \<noteq> ''string'' \<or>
           trim (the_string (query_q req)) = []"
    by (auto simp: trim_eq_Nil_iff)
qed

theorem invalid_query_rejected_witness:
  "search_route ex_client [] \<lparr> query_q = Absent, query_limit = QStr ''3'' \<rparr> =
     (Some \<lparr> status = 400, body = BadRequestBody
        ''Bad Request: Missing or invalid search query. Please provide a non-empty \"q\" parameter.'' \<rparr>, []) \<and>
   search_route ex_client [] \<lparr> query_q = QArr [QStr ''lofi'', QStr ''jazz''], query_limit = Absent \<rparr> =
     (Some \<lparr> status = 400, body = BadRequestBody
        ''Bad Request: Missing or invalid search query. Please provide a non-empty \"q\" parameter.'' \<rparr>, []) \<and>
   search_route ex_client [] \<lparr> query_q = QStr '''', query_limit = Absent \<rparr> =
     (Some \<lparr> status = 400, body = BadRequestBody
        ''Bad Request: Missing or invalid search query. Please provide a non-empty \"q\" parameter.'' \<rparr>, []) \<and>
   search_route ex_client [] \<lparr> query_q = QStr ''   '', query_limit = Absent \<rparr> =
     (Some \<lparr> status = 400, body = BadRequestBody
        ''Bad Request: Missing or invalid search query. Please provide a non-empty \"q\" parameter.'' \<rparr>, [])"
proof -
  have ws: "\<forall>c \<in> set ''   ''. isWhiteSpace c"
    by (simp add: isWhiteSpace_def)
  show ?thesis
    using invalid_query_rejected [of "\<lparr> query_q = Absent, query_limit = QStr ''3'' \<rparr>" ex_client "[]"]
      invalid_query_rejected [of "\<lparr> query_q = QArr [QStr ''lofi'', QStr ''jazz''], query_limit = Absent \<rparr>" ex_client "[]"]
      invalid_query_rejected [of "\<lparr> query_q = QStr '''', query_limit = Absent \<rparr>" ex_client "[]"]
      invalid_query_rejected [of "\<lparr> query_q = QStr ''   '', query_limit = Absent \<rparr>" ex_client "[]"]
      ws
    by (simp add: trim_Nil)
qed

subsection \<open>C6: an empty search result is a success\<close>

text \<open>
  Claim C6. When \<open>q\<close> is valid and the search resolves to the empty array, the response
  has status 200, \<open>results\<close> is empty, \<open>actual_result_count\<close> is 0 and a \<open>message\<close>
  explains that nothing was found.
\<close>

theorem empty_search_is_success:
  assumes q: "query_q req = QStr s" "trim s \<noteq> []"
    and found: "search cl (query_q req) ''track'' (normalize_limit (query_limit req)) = Inr []"
  shows "fst (search_route cl settled req) =
     Some \<lparr> status = 200, body = SearchBody
        \<lparr> query = query_q req, requested_limit = query_limit req,
          processed_limit = normalize_limit (query_limit req),
          actual_result_count = 0, developer = ''Ehsan Fazeli'', results = [],
          message = Some ''No tracks found for this query.'' \<rparr> \<rparr>"
  using found by (simp add: search_route_accepted [OF q] Let_def)

theorem empty_search_is_success_witness:
  "fst (search_route ex_client_empty [] ex_request) =
     Some \<lparr> status = 200, body = SearchBody
        \<lparr> query = QStr ''lofi'', requested_limit = QStr ''3'', processed_limit = Num 3,
          actual_result_count = 0, developer = ''Ehsan Fazeli'', results = [],
          message = Some ''No tracks found for this query.'' \<rparr> \<rparr>"
proof -
  have q: "query_q ex_request = QStr ''lofi''" "trim ''lofi'' \<noteq> []"
    by (simp_all add: ex_request_def trim_lofi)
  have found: "search ex_client_empty (query_q ex_request) ''track''
      (normalize_limit (query_limit ex_request)) = Inr []"
    by (simp add: ex_client_empty_def)
  from empty_search_is_success [OF q found, of "[]"] show ?thesis
    by (simp add: ex_request_def normalize_limit_3)
qed

subsection \<open>C7: a candidate without a url\<close>

text \<open>
  Claim C7. For a candidate that lacks a url (the element is \<^verbatim>\<open>null\<close> or
  \<^verbatim>\<open>undefined\<close>, or its \<open>url\<close> is missing or falsy) the mapped function calls nothing,
  and the record is built from the candidate's own title, author name, thumbnail and
  duration (\<^verbatim>\<open>Math.floor\<close> of the duration divided by 1000, the exact quotient
  rounded down for a duration of magnitude below 2^53 milliseconds), with \<open>fetchError\<close>
  true and the message
  \<^verbatim>\<open>'Missing track URL in search result'\<close>. In a run of the handler the calls after
  the search are the lookups of the candidates that have a url, in their order, and no
  others.
\<close>

theorem missing_url_skips_lookup:
  assumes "track = None \<or> (\<exists>t. track = Some t \<and> \<not> truthy (song_url t))"
  shows "detailedResultsPromise cl i track =
     (\<lparr> title = (case track of None \<Rightarrow> Str ''Unknown Title (URL missing)''
                  | Some t \<Rightarrow> if truthy (song_title t) then song_title t
                              else Str ''Unknown Title (URL missing)''),
         url = Null,
         author = (case track of None \<Rightarrow> Str ''Unknown Artist''
                  | Some t \<Rightarrow> if truthy (opt_name (song_author t)) then opt_name (song_author t)
                              else Str ''Unknown Artist''),
         thumbnail = (case track of None \<Rightarrow> Null
                  | Some t \<Rightarrow> if truthy (song_thumbnail t) then song_thumbnail t else Null),
         duration_seconds = (case track of None \<Rightarrow> Num 0
                  | Some t \<Rightarrow> floor_seconds (song_duration t)),
         genre = Str ''Unknown'',
         publishedAt = Str ''Unknown'',
         fetchError = True,
         errorMessage = Some ''Missing track URL in search result'' \<rparr>, []) \<and>
     (\<forall>t ms. track = Some t \<and> song_duration t = Some (Num ms) \<and> \<bar>ms\<bar> < 2 ^ 53 \<longrightarrow>
        duration_seconds (fst (detailedResultsPromise cl i track)) = Num (ms div 1000)) \<and>
     (\<forall>t. track = Some t \<and> song_duration t = None \<longrightarrow>
        duration_seconds (fst (detailedResultsPromise cl i track)) = Num 0) \<and>
     (query_q req = QStr s \<and> trim s \<noteq> [] \<and>
      search cl (query_q req) ''track'' (normalize_limit (query_limit req)) = Inr candidates \<and>
      settles_all (length candidates) settled \<longrightarrow>
        snd (search_route cl settled req) =
          SearchCall (query_q req) ''track'' (normalize_limit (query_limit req)) #
            [GetSongInfoCall (song_url t). Some t \<leftarrow> candidates, truthy (song_url t)])"
proof -
  have built: "detailedResultsPromise cl i track = (missing_url_track track, [])"
    using assms by (auto simp: detailedResultsPromise_def)
  have shape: "missing_url_track track =
      \<lparr> title = (case track of None \<Rightarrow> Str ''Unknown Title (URL missing)''
                  | Some t \<Rightarrow> if truthy (song_title t) then song_title t
                              else Str ''Unknown Title (URL missing)''),
         url = Null,
         author = (case track of None \<Rightarrow> Str ''Unknown Artist''
                  | Some t \<Rightarrow> if truthy (opt_name (song_author t)) then opt_name (song_author t)
                              else Str ''Unknown Artist''),
         thumbnail = (case track of None \<Rightarrow> Null
                  | Some t \<Rightarrow> if truthy (song_thumbnail t) then song_thumbnail t else Null),
         duration_seconds = (case track of None \<Rightarrow> Num 0
                  | Some t \<Rightarrow> floor_seconds (song_duration t)),
         genre = Str ''Unknown'',
         publishedAt = Str ''Unknown'',
         fetchError = True,
         errorMessage = Some ''Missing track URL in search result'' \<rparr>"
    by (cases track) (simp_all add: missing_url_track_def js_or_def)
  have exact: "duration_seconds (fst (detailedResultsPromise cl i track)) = Num (ms div 1000)"
    if h: "track = Some t \<and> song_duration t = Some (Num ms) \<and> \<bar>ms\<bar> < 2 ^ 53" for t ms
  proof -
    from h have tr: "track = Some t" and d: "song_duration t = Some (Num ms)"
      and bound: "\<bar>ms\<bar> < 2 ^ 53"
      by blast+
    have "duration_seconds (fst (detailedResultsPromise cl i track)) =
        floor_seconds (song_duration t)"
      unfolding built by (simp add: missing_url_track_def tr)
    also have "\<dots> = Num (ms div 1000)"
      unfolding d using bound by (rule floor_seconds_exact)
    finally show ?thesis .
  qed
  have none: "duration_seconds (fst (detailedResultsPromise cl i track)) = Num 0"
    if "track = Some t \<and> song_duration t = None" for t
    unfolding built using that by (simp add: missing_url_track_def)
  have calls: "snd (search_route cl settled req) =
          SearchCall (query_q req) ''track'' (normalize_limit (query_limit req)) #
            [GetSongInfoCall (song_url t). Some t \<leftarrow> candidates, truthy (song_url t)]"
    if run: "query_q req = QStr s \<and> trim s \<noteq> [] \<and>
      search cl (query_q req) ''track'' (normalize_limit (query_limit req)) = Inr candidates \<and>
      settles_all (length candidates) settled"
  proof -
    from run have q: "query_q req = QStr s" "trim s \<noteq> []"
      and found: "search cl (query_q req) ''track'' (normalize_limit (query_limit req)) = Inr candidates"
      and settled: "settles_all (length candidates) settled"
      by auto
    from q found settled show ?thesis by (rule search_route_calls)
  qed
  show ?thesis
  proof (intro conjI allI impI)
    show "detailedResultsPromise cl i track =
     (\<lparr> title = (case track of None \<Rightarrow> Str ''Unknown Title (URL missing)''
                  | Some t \<Rightarrow> if truthy (song_title t) then song_title t
                              else Str ''Unknown Title (URL missing)''),
         url = Null,
         author = (case track of None \<Rightarrow> Str ''Unknown Artist''
                  | Some t \<Rightarrow> if truthy (opt_name (song_author t)) then opt_name (song_author t)
                              else Str ''Unknown Artist''),
         thumbnail = (case track of None \<Rightarrow> Null
                  | Some t \<Rightarrow> if truthy (song_thumbnail t) then song_thumbnail t else Null),
         duration_seconds = (case track of None \<Rightarrow> Num 0
                  | Some t \<Rightarrow> floor_seconds (song_duration t)),
         genre = Str ''Unknown'',
         publishedAt = Str ''Unknown'',
         fetchError = True,
         errorMessage = Some ''Missing track URL in search result'' \<rparr>, [])"
      unfolding built shape ..
    show "duration_seconds (fst (detailedResultsPromise cl i track)) = Num (ms div 1000)"
      if "track = Some t \<and> song_duration t = Some (Num ms) \<and> \<bar>ms\<bar> < 2 ^ 53" for t ms
      using that by (rule exact)
    show "duration_seconds (fst (detailedResultsPromise cl i track)) = Num 0"
      if "track = Some t \<and> song_duration t = None" for t
      using that by (rule none)
    show "snd (search_route cl settled req) =
          SearchCall (query_q req) ''track'' (normalize_limit (query_limit req)) #
            [GetSongInfoCall (song_url t). Some t \<leftarrow> candidates, truthy (song_url t)]"
      if "query_q req = QStr s \<and> trim s \<noteq> [] \<and>
      search cl (query_q req) ''track'' (normalize_limit (query_limit req)) = Inr candidates \<and>
      settles_all (length candidates) settled"
      using that by (rule calls)
  qed
qed

theorem missing_url_skips_lookup_witness:
  "detailedResultsPromise ex_client 2 (Some ex_song_no_url) =
     (\<lparr> title = Str ''Orphan'', url = Null, author = Str ''Cy'', thumbnail = Null,
         duration_seconds = Num 2, genre = Str ''Unknown'', publishedAt = Str ''Unknown'',
         fetchError = True, errorMessage = Some ''Missing track URL in search result'' \<rparr>, []) \<and>
   detailedResultsPromise ex_client 1 None =
     (\<lparr> title = Str ''Unknown Title (URL missing)'', url = Null, author = Str ''Unknown Artist'',
         thumbnail = Null, duration_seconds = Num 0, genre = Str ''Unknown'',
         publishedAt = Str ''Unknown'',
         fetchError = True, errorMessage = Some ''Missing track URL in search result'' \<rparr>, []) \<and>
   snd (search_route ex_client [2, 0, 1] ex_request) =
     [SearchCall (QStr ''lofi'') ''track'' (Num 3),
      GetSongInfoCall (Str ''https://soundcloud.com/a/night-drive''),
      GetSongInfoCall (Str ''https://soundcloud.com/b/untitled'')]"
proof -
  have no_url: "Some ex_song_no_url = None \<or>
      (\<exists>t. Some ex_song_no_url = Some t \<and> \<not> truthy (song_url t))"
    by (simp add: ex_song_no_url_def)
  have hole: "None = None \<or> (\<exists>t. None = Some t \<and> \<not> truthy (song_url t))"
    by simp
  have run: "query_q ex_request = QStr ''lofi'' \<and> trim ''lofi'' \<noteq> [] \<and>
      search ex_client (query_q ex_request) ''track'' (normalize_limit (query_limit ex_request)) =
        Inr [Some ex_song_a, Some ex_song_b, Some ex_song_no_url] \<and>
      settles_all (length [Some ex_song_a, Some ex_song_b, Some ex_song_no_url]) [2, 0, 1]"
    by (auto simp: ex_request_def trim_lofi ex_client_def settles_all_def)
  note at_2 = missing_url_skips_lookup [OF no_url, of ex_client 2 ex_request "''lofi''"
      "[Some ex_song_a, Some ex_song_b, Some ex_song_no_url]" "[2, 0, 1]"]
  note at_1 = missing_url_skips_lookup [OF hole, of ex_client 1]
  have calls: "snd (search_route ex_client [2, 0, 1] ex_request) =
      SearchCall (query_q ex_request) ''track'' (normalize_limit (query_limit ex_request)) #
        [GetSongInfoCall (song_url t). Some t \<leftarrow> [Some ex_song_a, Some ex_song_b, Some ex_song_no_url],
           truthy (song_url t)]"
    using at_2 [THEN conjunct2, THEN conjunct2, THEN conjunct2] run by (rule mp)
  have "Some ex_song_no_url = Some ex_song_no_url \<and> song_duration ex_song_no_url = Some (Num 2500) \<and>
      \<bar>2500 :: int\<bar> < 2 ^ 53"
    by (simp add: ex_song_no_url_def)
  with at_2 [THEN conjunct2, THEN conjunct1]
  have "duration_seconds (fst (detailedResultsPromise ex_client 2 (Some ex_song_no_url))) =
      Num (2500 div 1000)"
    by blast
  then have seconds: "floor_seconds (song_duration ex_song_no_url) = Num 2"
    unfolding at_2 [THEN conjunct1] by simp
  have first: "detailedResultsPromise ex_client 2 (Some ex_song_no_url) =
     (\<lparr> title = Str ''Orphan'', url = Null, author = Str ''Cy'', thumbnail = Null,
         duration_seconds = Num 2, genre = Str ''Unknown'', publishedAt = Str ''Unknown'',
         fetchError = True, errorMessage = Some ''Missing track URL in search result'' \<rparr>, [])"
    unfolding at_2 [THEN conjunct1] using seconds by (simp add: ex_song_no_url_def)
  from first at_1 [THEN conjunct1] calls show ?thesis
    by (simp add: ex_song_no_url_def ex_song_a_def ex_song_b_def ex_request_def normalize_limit_3)
qed

subsection \<open>C8: a failing search gives a generic 500\<close>

text \<open>
  Claim C8. When \<open>q\<close> is valid and the search call itself throws, the response has status
  500 and its body is the same three constant strings (\<open>error\<close>, \<open>message\<close> and the
  \<open>developer\<close> credit) whatever was thrown: nothing of the error reaches the body.
\<close>

theorem search_failure_is_generic_500:
  assumes q: "query_q req = QStr s" "trim s \<noteq> []"
    and failed: "search cl (query_q req) ''track'' (normalize_limit (query_limit req)) = Inl err"
  shows "fst (search_route cl settled req) =
     Some \<lparr> status = 500, body = InternalErrorBody ''Internal Server Error''
        ''An unexpected error occurred while processing the SoundCloud search.''
        ''Ehsan Fazeli'' \<rparr>"
  using failed by (simp add: search_route_accepted [OF q] Let_def)

theorem search_failure_is_generic_500_witness:
  "fst (search_route ex_client_down [] ex_request) =
     Some \<lparr> status = 500, body = InternalErrorBody ''Internal Server Error''
        ''An unexpected error occurred while processing the SoundCloud search.''
        ''Ehsan Fazeli'' \<rparr>"
proof -
  have q: "query_q ex_request = QStr ''lofi''" "trim ''lofi'' \<noteq> []"
    by (simp_all add: ex_request_def trim_lofi)
  have failed: "search ex_client_down (query_q ex_request) ''track''
      (normalize_limit (query_limit ex_request)) = Inl (Error ''getaddrinfo ENOTFOUND soundcloud.com'')"
    by (simp add: ex_client_down_def)
  from search_failure_is_generic_500 [OF q failed, of "[]"] show ?thesis .
qed

subsection \<open>C9: the sign of \<open>duration_seconds\<close>\<close>

text \<open>
  The claim as stated, that \<open>duration_seconds\<close> is a non-negative integer for every
  detail payload and candidate, fails: the handler rounds whatever duration it is given,
  and a payload with the duration -1500 ms gives \<open>duration_seconds\<close> = -2, in the record
  of the mapped function and in the response.
\<close>

theorem duration_seconds_negative:
  "duration_seconds (fst (detailedResultsPromise cx_client_negative 0 (Some ex_song_a))) = Num (- 2) \<and>
   \<not> (\<exists>n. duration_seconds (fst (detailedResultsPromise cx_client_negative 0 (Some ex_song_a))) = Num n \<and> 0 \<le> n) \<and>
   (\<exists>b. fst (search_route cx_client_negative [0] ex_request) =
          Some \<lparr> status = 200, body = SearchBody b \<rparr> \<and>
        duration_seconds (results b ! 0) = Num (- 2))"
proof -
  have q: "query_q ex_request = QStr ''lofi''" "trim ''lofi'' \<noteq> []"
    by (simp_all add: ex_request_def trim_lofi)
  have found: "search cx_client_negative (query_q ex_request) ''track''
      (normalize_limit (query_limit ex_request)) = Inr [Some ex_song_a]"
    by (simp add: cx_client_negative_def)
  have settled: "settles_all (length [Some ex_song_a]) [0]"
    by (auto simp: settles_all_def)
  have nonempty: "[Some ex_song_a] \<noteq> []"
    by simp
  have one: "duration_seconds (fst (detailedResultsPromise cx_client_negative 0 (Some ex_song_a))) = Num (- 2)"
    by (simp add: detailedResultsPromise_def cx_client_negative_def ex_song_a_def cx_song_negative_def
        detailed_track_def floor_div_1000_minus_1500)
  have "\<exists>b. fst (search_route cx_client_negative [0] ex_request) =
          Some \<lparr> status = 200, body = SearchBody b \<rparr> \<and>
        duration_seconds (results b ! 0) = Num (- 2)"
    unfolding search_route_joined [OF q found nonempty settled]
    by (simp add: detailedResultsPromises_def one)
  with one show ?thesis
    by simp
qed

text \<open>
  Claim C9, amended. On all three paths (success, failed lookup, missing url), when the
  duration the record is computed from (the candidate's, and the payload's when the
  lookup succeeds) is missing, NaN or a non-negative integer number of milliseconds,
  \<open>duration_seconds\<close> is a non-negative integer.
\<close>

theorem duration_seconds_nonneg:
  assumes cand: "\<forall>t ms. track = Some t \<longrightarrow> song_duration t = Some (Num ms) \<longrightarrow> 0 \<le> ms"
    and info: "\<forall>t songInfo ms. track = Some t \<longrightarrow> getSongInfo cl i (song_url t) = Inr songInfo \<longrightarrow>
                 song_duration songInfo = Some (Num ms) \<longrightarrow> 0 \<le> ms"
  shows "\<exists>n. duration_seconds (fst (detailedResultsPromise cl i track)) = Num n \<and> 0 \<le> n"
proof (cases track)
  case None
  then show ?thesis
    by (simp add: detailedResultsPromise_def missing_url_track_def)
next
  case (Some t)
  from cand Some have own: "\<exists>n. floor_seconds (song_duration t) = Num n \<and> 0 \<le> n"
    by (intro floor_seconds_nonneg) simp
  show ?thesis
  proof (cases "truthy (song_url t)")
    case False
    with Some own show ?thesis
      by (simp add: detailedResultsPromise_def missing_url_track_def)
  next
    case True
    show ?thesis
    proof (cases "getSongInfo cl i (song_url t)")
      case (Inl err)
      with Some True own show ?thesis
        by (simp add: detailedResultsPromise_def fetch_failed_track_def)
    next
      case (Inr songInfo)
      with info Some have "\<exists>n. floor_seconds (song_duration songInfo) = Num n \<and> 0 \<le> n"
        by (intro floor_seconds_nonneg) simp
      with Some True Inr show ?thesis
        by (simp add: detailedResultsPromise_def detailed_track_def)
    qed
  qed
qed

theorem duration_seconds_nonneg_witness:
  "\<exists>n. duration_seconds (fst (detailedResultsPromise ex_client 0 (Some ex_song_a))) = Num n \<and> 0 \<le> n"
proof -
  have cand: "\<forall>t ms. Some ex_song_a = Some t \<longrightarrow> song_duration t = Some (Num ms) \<longrightarrow> 0 \<le> ms"
    by (simp add: ex_song_a_def)
  have info: "\<forall>t songInfo ms. Some ex_song_a = Some t \<longrightarrow>
      getSongInfo ex_client 0 (song_url t) = Inr songInfo \<longrightarrow>
      song_duration songInfo = Some (Num ms) \<longrightarrow> 0 \<le> ms"
    by (auto simp: ex_client_def ex_song_a_def)
  from duration_seconds_nonneg [OF cand info] show ?thesis .
qed

subsection \<open>C10: a limit with a numeric prefix\<close>

text \<open>
  Claim C10. A limit that begins with decimal digits followed by anything that is not a
  digit is read as the number its digits denote: \<open>parseInt\<close> returns that number, and the
  handler works with the limit it would work with for the digits alone, which is the
  number itself when it lies between 1 and 50 (25 for \<^verbatim>\<open>'25abc'\<close>). \<open>parseInt\<close>
  returns NaN, and the default applies, only for a string that has no digit after its
  leading white space and one optional sign.
\<close>

theorem numeric_prefix_limit:
  assumes "ds \<noteq> []" "\<forall>c \<in> set ds. isDigit c" "rest = [] \<or> \<not> isDigit (hd rest)"
  shows "parseInt (ds @ rest) = Num (digits_value ds) \<and>
     normalize_limit (QStr (ds @ rest)) = normalize_limit (QStr ds) \<and>
     (0 < digits_value ds \<and> digits_value ds \<le> 50 \<longrightarrow>
        normalize_limit (QStr (ds @ rest)) = Num (digits_value ds)) \<and>
     (query_q req = QStr s \<and> trim s \<noteq> [] \<and> query_limit req = QStr (ds @ rest) \<and>
      search cl (query_q req) ''track'' (normalize_limit (QStr (ds @ rest))) = Inr candidates \<and>
      settles_all (length candidates) settled \<longrightarrow>
        (\<exists>b. fst (search_route cl settled req) = Some \<lparr> status = 200, body = SearchBody b \<rparr> \<and>
             processed_limit b = normalize_limit (QStr ds))) \<and>
     (parseInt t = NaN \<longleftrightarrow>
        \<not> (\<exists>ws sg ds' rest'. t = ws @ sg @ ds' @ rest' \<and> (\<forall>c \<in> set ws. isWhiteSpace c) \<and>
             (sg = [] \<or> sg = ''+'' \<or> sg = ''-'') \<and> ds' \<noteq> [] \<and> (\<forall>c \<in> set ds'. isDigit c)))"
proof -
  have prefix: "parseInt (ds @ rest) = Num (digits_value ds)"
    using assms by (rule parseInt_digits_prefix)
  have alone: "parseInt ds = Num (digits_value ds)"
    using parseInt_digits_prefix [of ds "[]"] assms(1,2) by simp
  have same: "normalize_limit (QStr (ds @ rest)) = normalize_limit (QStr ds)"
    by (simp add: normalize_limit_cases prefix alone)
  have handler: "\<exists>b. fst (search_route cl settled req) = Some \<lparr> status = 200, body = SearchBody b \<rparr> \<and>
           processed_limit b = normalize_limit (QStr ds)"
    if "query_q req = QStr s" "trim s \<noteq> []" "query_limit req = QStr (ds @ rest)"
      "search cl (query_q req) ''track'' (normalize_limit (QStr (ds @ rest))) = Inr candidates"
      "settles_all (length candidates) settled"
    using search_route_limits [of req s cl candidates settled] that same by auto
  have within: "normalize_limit (QStr (ds @ rest)) = Num (digits_value ds)"
    if "0 < digits_value ds \<and> digits_value ds \<le> 50"
    using that by (simp add: normalize_limit_cases prefix)
  show ?thesis
  proof (intro conjI impI)
    show "parseInt (ds @ rest) = Num (digits_value ds)"
      by (rule prefix)
    show "normalize_limit (QStr (ds @ rest)) = normalize_limit (QStr ds)"
      by (rule same)
    show "normalize_limit (QStr (ds @ rest)) = Num (digits_value ds)"
      if "0 < digits_value ds \<and> digits_value ds \<le> 50"
      using that by (rule within)
    show "\<exists>b. fst (search_route cl settled req) = Some \<lparr> status = 200, body = SearchBody b \<rparr> \<and>
           processed_limit b = normalize_limit (QStr ds)"
      if "query_q req = QStr s \<and> trim s \<noteq> [] \<and> query_limit req = QStr (ds @ rest) \<and>
          search cl (query_q req) ''track'' (normalize_limit (QStr (ds @ rest))) = Inr candidates \<and>
          settles_all (length candidates) settled"
      using that handler by blast
    show "parseInt t = NaN \<longleftrightarrow>
        \<not> (\<exists>ws sg ds' rest'. t = ws @ sg @ ds' @ rest' \<and> (\<forall>c \<in> set ws. isWhiteSpace c) \<and>
             (sg = [] \<or> sg = ''+'' \<or> sg = ''-'') \<and> ds' \<noteq> [] \<and> (\<forall>c \<in> set ds'. isDigit c))"
      by (rule parseInt_NaN_iff)
  qed
qed

theorem numeric_prefix_limit_witness:
  "parseInt ''25abc'' = Num 25 \<and>
   normalize_limit (QStr ''25abc'') = Num 25 \<and>
   (\<exists>b. fst (search_route ex_client [2, 0, 1] ex_request_prefix) =
          Some \<lparr> status = 200, body = SearchBody b \<rparr> \<and> processed_limit b = Num 25) \<and>
   parseInt ''25abc'' \<noteq> NaN \<and> parseInt ''abc'' = NaN"
proof -
  have ds: "''25'' \<noteq> []" "\<forall>c \<in> set ''25''. isDigit c" "''abc'' = [] \<or> \<not> isDigit (hd ''abc'')"
    by (simp_all add: isDigit_def)
  have v: "digits_value ''25'' = 25"
    by (simp add: digits_value_def digit_value_def)
  note inst = numeric_prefix_limit [OF ds, of ex_request_prefix "''lofi''" ex_client
      "[Some ex_song_a, Some ex_song_b, Some ex_song_no_url]" "[2, 0, 1]" "''25abc''"]
  have p1: "parseInt ''25abc'' = Num 25"
    using inst [THEN conjunct1] v by simp
  have p2: "normalize_limit (QStr ''25abc'') = Num 25"
    using inst [THEN conjunct2, THEN conjunct2, THEN conjunct1] v by simp
  have p3: "normalize_limit (QStr ''25'') = Num 25"
    using inst [THEN conjunct2, THEN conjunct1] p2 by simp
  have run: "query_q ex_request_prefix = QStr ''lofi'' \<and> trim ''lofi'' \<noteq> [] \<and>
      query_limit ex_request_prefix = QStr (''25'' @ ''abc'') \<and>
      search ex_client (query_q ex_request_prefix) ''track'' (normalize_limit (QStr (''25'' @ ''abc''))) =
        Inr [Some ex_song_a, Some ex_song_b, Some ex_song_no_url] \<and>
      settles_all (length [Some ex_song_a, Some ex_song_b, Some ex_song_no_url]) [2, 0, 1]"
    by (auto simp: ex_request_prefix_def trim_lofi ex_client_def settles_all_def)
  have p4: "\<exists>b. fst (search_route ex_client [2, 0, 1] ex_request_prefix) =
          Some \<lparr> status = 200, body = SearchBody b \<rparr> \<and>
          processed_limit b = normalize_limit (QStr ''25'')"
    using inst [THEN conjunct2, THEN conjunct2, THEN conjunct2, THEN conjunct1] run
    by (rule mp)
  have "''25abc'' = [] @ [] @ ''25'' @ ''abc'' \<and> (\<forall>c \<in> set []. isWhiteSpace c) \<and>
      ([] = [] \<or> [] = ''+'' \<or> [] = ''-'') \<and> ''25'' \<noteq> [] \<and> (\<forall>c \<in> set ''25''. isDigit c)"
    by (simp add: isDigit_def)
  then have "\<exists>ws sg ds' rest'. ''25abc'' = ws @ sg @ ds' @ rest' \<and> (\<forall>c \<in> set ws. isWhiteSpace c) \<and>
      (sg = [] \<or> sg = ''+'' \<or> sg = ''-'') \<and> ds' \<noteq> [] \<and> (\<forall>c \<in> set ds'. isDigit c)"
    by blast
  with inst [THEN conjunct2, THEN conjunct2, THEN conjunct2, THEN conjunct2]
  have p5: "parseInt ''25abc'' \<noteq> NaN"
    by blast
  have p6: "parseInt ''abc'' = NaN"
    by (simp add: parseInt_eval)
  from p1 p2 p4 p5 p6 show ?thesis
    by (simp add: p3)
qed

end
